theory Spec2Isabelle
  imports Complex_Main "HOL-Library.Multiset" "HOL-Library.Char_ord" "HOL-Library.List_Lexorder"
begin

section \<open>Data model\<close>

text \<open>
  The program is \<^verbatim>\<open>movie_recommendation_system.py\<close>. Its tables are pandas objects.
  A \<^verbatim>\<open>Series\<close> is a list of (label, value) pairs in row order; a numeric
  \<^verbatim>\<open>DataFrame\<close> is a record of its row labels, its column labels and its rows.
  Floating-point numbers are idealised as reals, and no cell is NaN: the matrix is built
  with \<^verbatim>\<open>fillna(0)\<close>.
\<close>

type_synonym 'l series = "('l \<times> real) list"

record ('i, 'c) dataframe =
  index :: "'i list"
  columns :: "'c list"
  data :: "real list list"

text \<open>The rows of \<^verbatim>\<open>ratings.csv\<close> and \<^verbatim>\<open>movies.csv\<close>, and of their join.\<close>

record rating_row =
  r_userId :: int
  r_movieId :: int
  r_rating :: real

record movie_row =
  m_movieId :: int
  m_title :: string
  m_genres :: string

record joined_row =
  userId :: int
  movieId :: int
  rating :: real
  title :: string
  genres :: string

text \<open>What the program prints, one constructor per \<^verbatim>\<open>print\<close> call (and the prompt of
  \<^verbatim>\<open>input\<close>); a score is kept as the number that is formatted.\<close>

datatype py_error = IndexError | EOFError

datatype printed =
    UserNotFound int
  | NoSimilarUsers
  | SimilarUsers int "int series"
  | Header int
  | Rec string string real
  | Prompt
  | InvalidInput
  | Unexpected py_error

section \<open>pandas and scikit-learn operations used by the program\<close>

text \<open>Position of the first occurrence of a label (\<^verbatim>\<open>Index.get_loc\<close> on a unique index).\<close>

fun position :: "'a \<Rightarrow> 'a list \<Rightarrow> nat" where
  "position x [] = 0"
| "position x (y # ys) = (if x = y then 0 else Suc (position x ys))"

text \<open>\<^verbatim>\<open>df.loc[label]\<close>: the row with that label; \<^verbatim>\<open>df[label]\<close>: the column with that
  label, as a series over the row labels.\<close>

definition loc :: "('i, 'c) dataframe \<Rightarrow> 'i \<Rightarrow> real list" where
  "loc df u = data df ! position u (index df)"

definition getitem :: "('i, 'c) dataframe \<Rightarrow> 'c \<Rightarrow> 'i series" where
  "getitem df c = zip (index df) (map (\<lambda>r. r ! position c (columns df)) (data df))"

text \<open>The value of one cell, by labels.\<close>

definition cell :: "('i, 'c) dataframe \<Rightarrow> 'i \<Rightarrow> 'c \<Rightarrow> real" where
  "cell df u c = loc df u ! position c (columns df)"

text \<open>The shape that \<^verbatim>\<open>pivot_table\<close> guarantees: unique labels, one row per row label,
  one cell per column label.\<close>

definition wf_matrix :: "('i, 'c) dataframe \<Rightarrow> bool" where
  "wf_matrix df \<longleftrightarrow>
     distinct (index df) \<and> distinct (columns df) \<and>
     length (data df) = length (index df) \<and>
     list_all (\<lambda>r. length r = length (columns df)) (data df)"

text \<open>
  Modelled from the spec: \<^verbatim>\<open>sklearn.metrics.pairwise.cosine_similarity\<close> is a library
  function, not part of the source. Entry (i, j) is the dot product of rows i and j
  over the product of their norms, and a zero-norm row yields similarity 0. The four
  definitions that follow are this model.
\<close>

definition dot :: "real list \<Rightarrow> real list \<Rightarrow> real" where
  "dot x y = sum_list (map2 (*) x y)"

definition row_norm :: "real list \<Rightarrow> real" where
  "row_norm x = sqrt (dot x x)"

definition cosine :: "real list \<Rightarrow> real list \<Rightarrow> real" where
  "cosine x y =
     (if row_norm x = 0 \<or> row_norm y = 0 then 0
      else dot x y / (row_norm x * row_norm y))"

definition cosine_similarity :: "real list list \<Rightarrow> real list list" where
  "cosine_similarity X = map (\<lambda>x. map (\<lambda>y. cosine x y) X) X"

text \<open>
  \<^verbatim>\<open>Series.sort_values(ascending=False)\<close>. The source passes no \<^verbatim>\<open>kind\<close>, so pandas
  sorts with numpy's default \<^verbatim>\<open>quicksort\<close>, which is documented as not stable. The
  ascending index sort of numpy is therefore a parameter \<open>argsort\<close> of the model, and
  \<open>argsort_ok\<close> is all that is known of it: it returns a permutation of the positions
  that puts the values in non-decreasing order. pandas sorts descending by reversing
  the values, sorting ascending, and reversing the result (\<^verbatim>\<open>nargsort\<close>).
\<close>

definition argsort_ok :: "(real list \<Rightarrow> nat list) \<Rightarrow> bool" where
  "argsort_ok argsort \<longleftrightarrow>
     (\<forall>xs. mset (argsort xs) = mset [0..<length xs] \<and>
           sorted (map (\<lambda>i. xs ! i) (argsort xs)))"

definition nargsort :: "(real list \<Rightarrow> nat list) \<Rightarrow> real list \<Rightarrow> nat list" where
  "nargsort argsort items =
     (let idx = [0..<length items];
          non_nans = rev items;
          non_nan_idx = rev idx;
          indexer = map (\<lambda>i. non_nan_idx ! i) (argsort non_nans)
      in rev indexer)"

definition sort_values :: "(real list \<Rightarrow> nat list) \<Rightarrow> 'l series \<Rightarrow> 'l series" where
  "sort_values argsort s = map (\<lambda>i. s ! i) (nargsort argsort (map snd s))"

text \<open>\<^verbatim>\<open>Series.drop(label)\<close> and \<^verbatim>\<open>Series.head(n)\<close>.\<close>

definition drop_label :: "'l \<Rightarrow> 'l series \<Rightarrow> 'l series" where
  "drop_label u s = filter (\<lambda>p. fst p \<noteq> u) s"

definition head :: "nat \<Rightarrow> 'a list \<Rightarrow> 'a list" where
  "head n s = take n s"

text \<open>\<^verbatim>\<open>DataFrame.mean(axis=0)\<close> of the rows \<open>rs\<close> under the column labels \<open>cs\<close>: one mean
  per column, over all the rows.\<close>

definition mean_axis0 :: "'c list \<Rightarrow> real list list \<Rightarrow> 'c series" where
  "mean_axis0 cs rs =
     map (\<lambda>j. (cs ! j, sum_list (map (\<lambda>r. r ! j) rs) / real (length rs))) [0..<length cs]"

section \<open>The program\<close>

subsection \<open>\<^verbatim>\<open>create_user_item_matrix\<close>\<close>

text \<open>\<^verbatim>\<open>pd.merge(ratings, movies, on='movieId')\<close>: the inner join, in the order of the
  ratings.\<close>

definition merge :: "rating_row list \<Rightarrow> movie_row list \<Rightarrow> joined_row list" where
  "merge ratings movies =
     concat (map (\<lambda>r. map (\<lambda>m. \<lparr>userId = r_userId r, movieId = r_movieId r,
                                 rating = r_rating r, title = m_title m, genres = m_genres m\<rparr>)
                          (filter (\<lambda>m. m_movieId m = r_movieId r) movies)) ratings)"

text \<open>\<^verbatim>\<open>df.pivot_table(index='userId', columns='title', values='rating').fillna(0)\<close>:
  sorted unique users and titles; a cell is the mean of the ratings of that user for
  that title, and 0 where there is none.\<close>

definition pivot_cell :: "joined_row list \<Rightarrow> int \<Rightarrow> string \<Rightarrow> real" where
  "pivot_cell df u t =
     (let vs = map rating (filter (\<lambda>r. userId r = u \<and> title r = t) df)
      in if vs = [] then 0 else sum_list vs / real (length vs))"

definition pivot_table :: "joined_row list \<Rightarrow> (int, string) dataframe" where
  "pivot_table df =
     (let us = sort (remdups (map userId df));
          ts = sort (remdups (map title df))
      in \<lparr>index = us, columns = ts, data = map (\<lambda>u. map (\<lambda>t. pivot_cell df u t) ts) us\<rparr>)"

definition create_user_item_matrix ::
  "rating_row list \<Rightarrow> movie_row list \<Rightarrow> (int, string) dataframe \<times> joined_row list" where
  "create_user_item_matrix ratings movies =
     (let df = merge ratings movies in (pivot_table df, df))"

subsection \<open>\<^verbatim>\<open>get_recommendations\<close>\<close>

text \<open>Line 41: the similarity matrix as a data frame over the users.\<close>

definition user_similarity_df :: "(int, string) dataframe \<Rightarrow> (int, int) dataframe" where
  "user_similarity_df m =
     \<lparr>index = index m, columns = index m, data = cosine_similarity (data m)\<rparr>"

text \<open>Line 46.\<close>

definition similar_users ::
  "(real list \<Rightarrow> nat list) \<Rightarrow> int \<Rightarrow> (int, string) dataframe \<Rightarrow> int series" where
  "similar_users argsort user_id m =
     head 10 (drop_label user_id (sort_values argsort (getitem (user_similarity_df m) user_id)))"

text \<open>Lines 56 to 63.\<close>

definition similar_users_ratings ::
  "(real list \<Rightarrow> nat list) \<Rightarrow> int \<Rightarrow> (int, string) dataframe \<Rightarrow> real list list" where
  "similar_users_ratings argsort user_id m =
     map (\<lambda>u. loc m u) (map fst (similar_users argsort user_id m))"

definition unseen_movies :: "int \<Rightarrow> (int, string) dataframe \<Rightarrow> string list" where
  "unseen_movies user_id m =
     map fst (filter (\<lambda>p. snd p = 0) (zip (columns m) (loc m user_id)))"

definition recommendable_movies ::
  "(real list \<Rightarrow> nat list) \<Rightarrow> int \<Rightarrow> (int, string) dataframe \<Rightarrow> real list list" where
  "recommendable_movies argsort user_id m =
     map (\<lambda>r. map (\<lambda>c. r ! position c (columns m)) (unseen_movies user_id m))
         (similar_users_ratings argsort user_id m)"

text \<open>Lines 67 and 71.\<close>

definition recommendation_scores ::
  "(real list \<Rightarrow> nat list) \<Rightarrow> int \<Rightarrow> (int, string) dataframe \<Rightarrow> string series" where
  "recommendation_scores argsort user_id m =
     sort_values argsort
       (mean_axis0 (unseen_movies user_id m) (recommendable_movies argsort user_id m))"

definition top_10_recommendations ::
  "(real list \<Rightarrow> nat list) \<Rightarrow> int \<Rightarrow> (int, string) dataframe \<Rightarrow> string series" where
  "top_10_recommendations argsort user_id m = head 10 (recommendation_scores argsort user_id m)"

text \<open>Lines 72 to 78: the loop that prints one line per recommendation. \<^verbatim>\<open>iloc[0]\<close> of
  an empty selection raises \<^verbatim>\<open>IndexError\<close>; what was printed before stays printed.\<close>

fun print_recommendations ::
  "joined_row list \<Rightarrow> string series \<Rightarrow> printed list \<times> py_error option" where
  "print_recommendations details [] = ([], None)"
| "print_recommendations details ((t, score) # rest) =
     (case filter (\<lambda>r. title r = t) details of
        [] \<Rightarrow> ([], Some IndexError)
      | d # _ \<Rightarrow>
          (case print_recommendations details rest of
             (out, e) \<Rightarrow> (Rec (title d) (genres d) score # out, e)))"

text \<open>The function: what it prints, and the exception it raises, if any.\<close>

definition get_recommendations ::
  "(real list \<Rightarrow> nat list) \<Rightarrow> int \<Rightarrow> (int, string) dataframe \<Rightarrow> joined_row list
     \<Rightarrow> printed list \<times> py_error option" where
  "get_recommendations argsort user_id m movies_df =
     (if user_id \<notin> set (index m) then ([UserNotFound user_id], None)
      else
        let similar = similar_users argsort user_id m in
        if similar = [] then ([NoSimilarUsers], None)
        else
          let top_10 = top_10_recommendations argsort user_id m;
              recommended_movies_details =
                filter (\<lambda>r. title r \<in> set (map fst top_10)) movies_df
          in case print_recommendations recommended_movies_details top_10 of
               (out, e) \<Rightarrow> (SimilarUsers user_id similar # Header user_id # out, e))"

subsection \<open>\<^verbatim>\<open>get_recommendations\<close> with its objects in a store\<close>

text \<open>
  The same function once more, now with the objects it works on held in a store: the
  store is the list of the objects that exist, and a reference to an object is its
  position in that list. The two data frames the function receives are references into
  the store. Each pandas call of lines 40 to 72 (\<^verbatim>\<open>cosine_similarity\<close>, the
  \<^verbatim>\<open>DataFrame\<close> constructor, column and row selection, \<^verbatim>\<open>sort_values\<close>,
  \<^verbatim>\<open>drop\<close>, \<^verbatim>\<open>head\<close>, the comparison with 0, \<^verbatim>\<open>mean\<close>, \<^verbatim>\<open>isin\<close>)
  returns a new object: none of them is called with \<^verbatim>\<open>inplace=True\<close>, and the
  function has no assignment to an element, a column or an attribute of an object. So
  each call is an allocation, \<open>new\<close>, whose argument is computed from objects read
  from the store. A name with the suffix \<open>_ref\<close> is the reference held by the variable
  of that name in the source.
\<close>

datatype py_obj =
    DataFrameObj "(int, string) dataframe"
  | SimilarityObj "(int, int) dataframe"
  | NdarrayObj "real list list"
  | UserSeriesObj "int series"
  | TitleSeriesObj "string series"
  | MaskObj "bool list"
  | TitleIndexObj "string list"
  | TableObj "joined_row list"

definition frame_of :: "py_obj \<Rightarrow> (int, string) dataframe" where
  "frame_of obj = (case obj of DataFrameObj m \<Rightarrow> m | _ \<Rightarrow> \<lparr>index = [], columns = [], data = []\<rparr>)"

definition similarity_of :: "py_obj \<Rightarrow> (int, int) dataframe" where
  "similarity_of obj = (case obj of SimilarityObj m \<Rightarrow> m | _ \<Rightarrow> \<lparr>index = [], columns = [], data = []\<rparr>)"

definition ndarray_of :: "py_obj \<Rightarrow> real list list" where
  "ndarray_of obj = (case obj of NdarrayObj x \<Rightarrow> x | _ \<Rightarrow> [])"

definition user_series_of :: "py_obj \<Rightarrow> int series" where
  "user_series_of obj = (case obj of UserSeriesObj s \<Rightarrow> s | _ \<Rightarrow> [])"

definition title_series_of :: "py_obj \<Rightarrow> string series" where
  "title_series_of obj = (case obj of TitleSeriesObj s \<Rightarrow> s | _ \<Rightarrow> [])"

definition mask_of :: "py_obj \<Rightarrow> bool list" where
  "mask_of obj = (case obj of MaskObj b \<Rightarrow> b | _ \<Rightarrow> [])"

definition title_index_of :: "py_obj \<Rightarrow> string list" where
  "title_index_of obj = (case obj of TitleIndexObj t \<Rightarrow> t | _ \<Rightarrow> [])"

definition table_of :: "py_obj \<Rightarrow> joined_row list" where
  "table_of obj = (case obj of TableObj t \<Rightarrow> t | _ \<Rightarrow> [])"

definition new :: "py_obj \<Rightarrow> py_obj list \<Rightarrow> nat \<times> py_obj list" where
  "new obj h = (length h, h @ [obj])"

definition loc_rows :: "(int, string) dataframe \<Rightarrow> int list \<Rightarrow> (int, string) dataframe" where
  "loc_rows df labels = \<lparr>index = labels, columns = columns df, data = map (\<lambda>u. loc df u) labels\<rparr>"

definition select_columns :: "(int, string) dataframe \<Rightarrow> string list \<Rightarrow> (int, string) dataframe" where
  "select_columns df labels =
     \<lparr>index = index df, columns = labels,
      data = map (\<lambda>r. map (\<lambda>c. r ! position c (columns df)) labels) (data df)\<rparr>"

text \<open>Lines 40 to 46.\<close>

definition find_similar_users_store ::
  "(real list \<Rightarrow> nat list) \<Rightarrow> int \<Rightarrow> nat \<Rightarrow> py_obj list \<Rightarrow> nat \<times> py_obj list" where
  "find_similar_users_store argsort user_id user_item_matrix_ref h0 =
     (let (user_similarities_ref, h1) =
            new (NdarrayObj (cosine_similarity (data (frame_of (h0 ! user_item_matrix_ref))))) h0;
          (user_similarity_df_ref, h2) =
            new (SimilarityObj \<lparr>index = index (frame_of (h1 ! user_item_matrix_ref)),
                                 columns = index (frame_of (h1 ! user_item_matrix_ref)),
                                 data = ndarray_of (h1 ! user_similarities_ref)\<rparr>) h1;
          (similarity_column_ref, h3) =
            new (UserSeriesObj (getitem (similarity_of (h2 ! user_similarity_df_ref)) user_id)) h2;
          (sorted_column_ref, h4) =
            new (UserSeriesObj (sort_values argsort (user_series_of (h3 ! similarity_column_ref)))) h3;
          (dropped_ref, h5) =
            new (UserSeriesObj (drop_label user_id (user_series_of (h4 ! sorted_column_ref)))) h4
      in new (UserSeriesObj (head 10 (user_series_of (h5 ! dropped_ref)))) h5)"

text \<open>Lines 56 to 71.\<close>

definition rank_movies_store ::
  "(real list \<Rightarrow> nat list) \<Rightarrow> int \<Rightarrow> nat \<Rightarrow> nat \<Rightarrow> py_obj list \<Rightarrow> nat \<times> py_obj list" where
  "rank_movies_store argsort user_id user_item_matrix_ref similar_users_ref h6 =
     (let (similar_users_ratings_ref, h7) =
            new (DataFrameObj (loc_rows (frame_of (h6 ! user_item_matrix_ref))
                   (map fst (user_series_of (h6 ! similar_users_ref))))) h6;
          (target_row_ref, h8) =
            new (TitleSeriesObj (zip (columns (frame_of (h7 ! user_item_matrix_ref)))
                   (loc (frame_of (h7 ! user_item_matrix_ref)) user_id))) h7;
          (unseen_movies_mask_ref, h9) =
            new (MaskObj (map (\<lambda>p. snd p = 0) (title_series_of (h8 ! target_row_ref)))) h8;
          (unseen_movies_ref, h10) =
            new (TitleIndexObj (map fst (filter snd
                   (zip (columns (frame_of (h9 ! user_item_matrix_ref)))
                        (mask_of (h9 ! unseen_movies_mask_ref)))))) h9;
          (recommendable_movies_ref, h11) =
            new (DataFrameObj (select_columns (frame_of (h10 ! similar_users_ratings_ref))
                   (title_index_of (h10 ! unseen_movies_ref)))) h10;
          (means_ref, h12) =
            new (TitleSeriesObj (mean_axis0 (columns (frame_of (h11 ! recommendable_movies_ref)))
                   (data (frame_of (h11 ! recommendable_movies_ref))))) h11;
          (recommendation_scores_ref, h13) =
            new (TitleSeriesObj (sort_values argsort (title_series_of (h12 ! means_ref)))) h12
      in new (TitleSeriesObj (head 10 (title_series_of (h13 ! recommendation_scores_ref)))) h13)"

text \<open>Lines 33 to 78.\<close>

definition get_recommendations_store ::
  "(real list \<Rightarrow> nat list) \<Rightarrow> int \<Rightarrow> nat \<Rightarrow> nat \<Rightarrow> py_obj list
     \<Rightarrow> (printed list \<times> py_error option) \<times> py_obj list" where
  "get_recommendations_store argsort user_id user_item_matrix_ref movies_df_ref h0 =
     (if user_id \<notin> set (index (frame_of (h0 ! user_item_matrix_ref)))
      then (([UserNotFound user_id], None), h0)
      else
        case find_similar_users_store argsort user_id user_item_matrix_ref h0 of
          (similar_users_ref, h6) \<Rightarrow>
            if user_series_of (h6 ! similar_users_ref) = [] then (([NoSimilarUsers], None), h6)
            else
              case rank_movies_store argsort user_id user_item_matrix_ref similar_users_ref h6 of
                (top_10_recommendations_ref, h14) \<Rightarrow>
                  case new (TableObj (filter (\<lambda>r. title r \<in> set (map fst
                                         (title_series_of (h14 ! top_10_recommendations_ref))))
                               (table_of (h14 ! movies_df_ref)))) h14 of
                    (recommended_movies_details_ref, h15) \<Rightarrow>
                      case print_recommendations (table_of (h15 ! recommended_movies_details_ref))
                             (title_series_of (h15 ! top_10_recommendations_ref)) of
                        (out, e) \<Rightarrow>
                          ((SimilarUsers user_id (user_series_of (h15 ! similar_users_ref))
                              # Header user_id # out, e), h15))"

subsection \<open>\<^verbatim>\<open>main\<close>: the query loop\<close>

text \<open>
  A character of a \<open>string\<close> stands for a code point below 256, so a line of input is
  a Python \<^verbatim>\<open>str\<close> of such code points. \<^verbatim>\<open>str.lower\<close> maps the capital letters of
  that range to their small letters.
\<close>

definition lower_char :: "char \<Rightarrow> char" where
  "lower_char c =
     (case map_of (zip ''ABCDEFGHIJKLMNOPQRSTUVWXYZ'' ''abcdefghijklmnopqrstuvwxyz'') c of
        Some l \<Rightarrow> l
      | None \<Rightarrow>
          if (192::nat) \<le> of_char c \<and> of_char c \<le> (222::nat) \<and> of_char c \<noteq> (215::nat)
          then char_of (of_char c + (32::nat))
          else c)"

definition lower :: "string \<Rightarrow> string" where
  "lower s = map lower_char s"

text \<open>
  \<^verbatim>\<open>int(str)\<close> in base 10: the characters that it skips at both ends are the ASCII
  whitespace of C (tab to carriage return, and the space) and, outside ASCII, the
  Unicode whitespace, of which the next line (133) and the no-break space (160) lie
  below 256; the separators 28 to 31 are not skipped. Between them it reads an optional
  sign and decimal digits, single underscores allowed between digits, and no more than
  4300 digits (the default limit of CPython). \<open>None\<close> is \<^verbatim>\<open>ValueError\<close>.
\<close>

definition is_space :: "char \<Rightarrow> bool" where
  "is_space c \<longleftrightarrow> (of_char c :: nat) \<in> set [9, 10, 11, 12, 13, 32, 133, 160]"

definition strip :: "string \<Rightarrow> string" where
  "strip s = rev (dropWhile is_space (rev (dropWhile is_space s)))"

definition is_digit :: "char \<Rightarrow> bool" where
  "is_digit c \<longleftrightarrow> (48::nat) \<le> of_char c \<and> of_char c \<le> (57::nat)"

definition digit_value :: "char \<Rightarrow> int" where
  "digit_value c = int (of_char c) - 48"

fun parse_digits :: "int \<Rightarrow> string \<Rightarrow> int option" where
  "parse_digits acc [] = Some acc"
| "parse_digits acc [c] = (if is_digit c then Some (10 * acc + digit_value c) else None)"
| "parse_digits acc (c # d # cs) =
     (if is_digit c then parse_digits (10 * acc + digit_value c) (d # cs)
      else if c = CHR ''_'' \<and> is_digit d then parse_digits (10 * acc + digit_value d) cs
      else None)"

definition parse_unsigned :: "string \<Rightarrow> int option" where
  "parse_unsigned s =
     (case s of [] \<Rightarrow> None
      | c # cs \<Rightarrow> if is_digit c then parse_digits (digit_value c) cs else None)"

definition py_int :: "string \<Rightarrow> int option" where
  "py_int s =
     (let t = strip s in
      if 4300 < length (filter is_digit t) then None
      else
        (case t of [] \<Rightarrow> None
         | c # cs \<Rightarrow>
             if c = CHR ''-'' then map_option uminus (parse_unsigned cs)
             else if c = CHR ''+'' then parse_unsigned cs
             else parse_unsigned (c # cs)))"

text \<open>
  Lines 89 to 99. The console is the list \<open>stdin\<close> of the lines still to be read;
  \<^verbatim>\<open>input\<close> prints its prompt and then raises \<^verbatim>\<open>EOFError\<close> when the list is empty.
  \<^verbatim>\<open>except Exception\<close> catches that error as it catches every other one, and the
  \<^verbatim>\<open>while True\<close> goes on. The result is everything printed when the loop ends (then
  \<^verbatim>\<open>main\<close> returns and the process exits with status 0), and \<open>None\<close> when it never
  ends.
\<close>

partial_function (option) main_loop ::
  "(real list \<Rightarrow> nat list) \<Rightarrow> (int, string) dataframe \<Rightarrow> joined_row list
     \<Rightarrow> string list \<Rightarrow> printed list \<Rightarrow> printed list option" where
  "main_loop argsort user_item_matrix merged_df stdin out =
     (case stdin of
        [] \<Rightarrow> main_loop argsort user_item_matrix merged_df [] (out @ [Prompt, Unexpected EOFError])
      | user_id_input # rest \<Rightarrow>
          if lower user_id_input = ''exit'' then Some (out @ [Prompt])
          else
            (case py_int user_id_input of
               None \<Rightarrow> main_loop argsort user_item_matrix merged_df rest (out @ [Prompt, InvalidInput])
             | Some target_user_id \<Rightarrow>
                 (case get_recommendations argsort target_user_id user_item_matrix merged_df of
                    (printed, None) \<Rightarrow>
                      main_loop argsort user_item_matrix merged_df rest (out @ Prompt # printed)
                  | (printed, Some e) \<Rightarrow>
                      main_loop argsort user_item_matrix merged_df rest
                        (out @ Prompt # printed @ [Unexpected e]))))"

section \<open>The index sort of numpy\<close>

text \<open>A sort that meets the contract and keeps equal values in their original order, as
  \<^verbatim>\<open>kind='stable'\<close> does.\<close>

definition stable_argsort :: "real list \<Rightarrow> nat list" where
  "stable_argsort xs = sort_key (\<lambda>i. xs ! i) [0..<length xs]"

text \<open>
  The sort behind the default \<^verbatim>\<open>kind='quicksort'\<close>: numpy's \<^verbatim>\<open>aquicksort\<close>, an
  introsort on the array \<open>tosort\<close> of positions, ordered by the values \<open>v\<close>. A segment
  of more than 17 positions is partitioned around the median of its first, middle and
  last value; a segment of at most 17 positions is sorted by insertion; a segment taken
  from the stack with its depth budget used up is sorted by \<^verbatim>\<open>aheapsort\<close>. The
  segments are disjoint, so a segment is a list here and the stack is the recursion.
  (On processors with vector instructions numpy may use a vectorised quicksort instead;
  no quicksort of numpy is stable.)
\<close>

definition swap :: "nat list \<Rightarrow> nat \<Rightarrow> nat \<Rightarrow> nat list" where
  "swap tosort i j = tosort[i := tosort ! j, j := tosort ! i]"

text \<open>\<^verbatim>\<open>do ++pi; while (v[*pi] < vp)\<close> and \<^verbatim>\<open>do --pj; while (vp < v[*pj])\<close>, from the
  position after the step.\<close>

definition scan_up :: "real list \<Rightarrow> nat list \<Rightarrow> real \<Rightarrow> nat \<Rightarrow> nat" where
  "scan_up v tosort vp i = i + length (takeWhile (\<lambda>k. v ! k < vp) (drop i tosort))"

definition scan_down :: "real list \<Rightarrow> nat list \<Rightarrow> real \<Rightarrow> nat \<Rightarrow> nat" where
  "scan_down v tosort vp j =
     j - length (takeWhile (\<lambda>k. vp < v ! k) (rev (take (Suc j) tosort)))"

function partition_loop ::
  "real list \<Rightarrow> real \<Rightarrow> nat list \<Rightarrow> nat \<Rightarrow> nat \<Rightarrow> nat list \<times> nat" where
  "partition_loop v vp tosort i j =
     (let i' = scan_up v tosort vp (Suc i);
          j' = scan_down v tosort vp (j - 1)
      in if j' \<le> i' then (tosort, i')
         else partition_loop v vp (swap tosort i' j') i' j')"
  by pat_completeness auto
termination
  by (relation "measure (\<lambda>(v, vp, tosort, i, j). j - i)")
     (auto simp: scan_up_def scan_down_def)

text \<open>The partition of a segment: the segment after it, and the position of the pivot.\<close>

definition partition :: "real list \<Rightarrow> nat list \<Rightarrow> nat list \<times> nat" where
  "partition v tosort =
     (let pr = length tosort - 1;
          pm = pr div 2;
          t1 = (if v ! (tosort ! pm) < v ! (tosort ! 0) then swap tosort pm 0 else tosort);
          t2 = (if v ! (t1 ! pr) < v ! (t1 ! pm) then swap t1 pr pm else t1);
          t3 = (if v ! (t2 ! pm) < v ! (t2 ! 0) then swap t2 pm 0 else t2);
          vp = v ! (t3 ! pm);
          t4 = swap t3 pm (pr - 1)
      in case partition_loop v vp t4 0 (pr - 1) of
           (t5, i) \<Rightarrow> (swap t5 i (pr - 1), i))"

text \<open>The insertion sort: each position moves left past the positions of greater value.\<close>

definition insert_right :: "real list \<Rightarrow> nat list \<Rightarrow> nat \<Rightarrow> nat list" where
  "insert_right v left vi =
     (let moved = takeWhile (\<lambda>k. v ! vi < v ! k) (rev left)
      in take (length left - length moved) left @ vi # rev moved)"

definition insertion_sort :: "real list \<Rightarrow> nat list \<Rightarrow> nat list" where
  "insertion_sort v tosort = foldl (insert_right v) [] tosort"

text \<open>\<^verbatim>\<open>aheapsort\<close>; its array \<open>a\<close> is indexed from 1, so \<open>a[k]\<close> is \<open>a ! (k - 1)\<close>.\<close>

function sift ::
  "real list \<Rightarrow> nat \<Rightarrow> nat \<Rightarrow> nat list \<Rightarrow> nat \<Rightarrow> nat \<Rightarrow> nat list" where
  "sift v tmp n a i j =
     (if 0 < j \<and> j \<le> n then
        (let j' = (if j < n \<and> v ! (a ! (j - 1)) < v ! (a ! j) then j + 1 else j)
         in if v ! tmp < v ! (a ! (j' - 1))
            then sift v tmp n (a[i - 1 := a ! (j' - 1)]) j' (j' + j')
            else a[i - 1 := tmp])
      else a[i - 1 := tmp])"
  by pat_completeness auto
termination
  by (relation "measure (\<lambda>(v, tmp, n, a, i, j). Suc n - j)") auto

definition heapify :: "real list \<Rightarrow> nat list \<Rightarrow> nat list" where
  "heapify v tosort =
     foldl (\<lambda>a l. sift v (a ! (l - 1)) (length tosort) a l (l + l)) tosort
       (rev [1..<Suc (length tosort div 2)])"

definition heap_extract :: "real list \<Rightarrow> nat list \<Rightarrow> nat list" where
  "heap_extract v heap =
     foldl (\<lambda>a n. sift v (a ! (n - 1)) (n - 1) (a[n - 1 := a ! 0]) 1 2) heap
       (rev [2..<Suc (length heap)])"

definition aheapsort :: "real list \<Rightarrow> nat list \<Rightarrow> nat list" where
  "aheapsort v tosort = heap_extract v (heapify v tosort)"

text \<open>The depth budget is twice the position of the highest bit of the length. After a
  partition the shorter part is sorted next and the longer part goes on the stack, both
  with the budget lowered by one; only a segment taken from the stack (\<open>popped\<close>) is
  checked against the budget.\<close>

fun npy_get_msb :: "nat \<Rightarrow> nat" where
  "npy_get_msb n = (if n \<le> 1 then 0 else Suc (npy_get_msb (n div 2)))"

function aquicksort :: "real list \<Rightarrow> bool \<Rightarrow> int \<Rightarrow> nat list \<Rightarrow> nat list" where
  "aquicksort v popped cdepth tosort =
     (if popped \<and> cdepth < 0 then aheapsort v tosort
      else if 16 < length tosort - 1 then
        (case partition v tosort of
           (t, i) \<Rightarrow>
             if length t = length tosort \<and> i < length tosort then
               (if i < length tosort - 1 - i
                then aquicksort v False (cdepth - 1) (take i t) @ t ! i
                       # aquicksort v True (cdepth - 1) (drop (Suc i) t)
                else aquicksort v True (cdepth - 1) (take i t) @ t ! i
                       # aquicksort v False (cdepth - 1) (drop (Suc i) t))
             else t)
      else insertion_sort v tosort)"
  by pat_completeness auto
termination
  by (relation "measure (\<lambda>(v, popped, cdepth, tosort). length tosort)") auto

definition numpy_argsort :: "real list \<Rightarrow> nat list" where
  "numpy_argsort v = aquicksort v True (2 * int (npy_get_msb (length v))) [0..<length v]"

section \<open>The specification's wording\<close>

text \<open>The unweighted mean of a movie's column over a list of users.\<close>

definition spec_mean_score :: "(int, string) dataframe \<Rightarrow> int list \<Rightarrow> string \<Rightarrow> real" where
  "spec_mean_score m users t = sum_list (map (\<lambda>u. cell m u t) users) / real (length users)"

text \<open>A stable descending sort of a series: equal values stay in their original order.\<close>

definition spec_stable_desc :: "'l series \<Rightarrow> 'l series" where
  "spec_stable_desc s = sort_key (\<lambda>p. - snd p) s"

text \<open>The similarity of every user to the target, in row order.\<close>

definition spec_similarities :: "int \<Rightarrow> (int, string) dataframe \<Rightarrow> int series" where
  "spec_similarities user_id m = map (\<lambda>u. (u, cosine (loc m u) (loc m user_id))) (index m)"

definition spec_similar_users :: "int \<Rightarrow> (int, string) dataframe \<Rightarrow> int series" where
  "spec_similar_users user_id m =
     take 10 (spec_stable_desc (filter (\<lambda>p. fst p \<noteq> user_id) (spec_similarities user_id m)))"

text \<open>The candidate movies with their mean scores, in column order.\<close>

definition spec_candidates ::
  "(real list \<Rightarrow> nat list) \<Rightarrow> int \<Rightarrow> (int, string) dataframe \<Rightarrow> string series" where
  "spec_candidates argsort user_id m =
     map (\<lambda>t. (t, spec_mean_score m (map fst (similar_users argsort user_id m)) t))
         (filter (\<lambda>t. cell m user_id t = 0) (columns m))"

text \<open>The (title, score) pairs of the recommendation lines in what was printed.\<close>

fun rec_lines :: "printed list \<Rightarrow> string series" where
  "rec_lines [] = []"
| "rec_lines (Rec t g score # out) = (t, score) # rec_lines out"
| "rec_lines (_ # out) = rec_lines out"

section \<open>Example inputs\<close>

text \<open>Three users and three movies; user 2 is closer to user 1 than user 3 is.\<close>

definition example_ratings :: "rating_row list" where
  "example_ratings =
     [\<lparr>r_userId = 1, r_movieId = 10, r_rating = 5\<rparr>,
      \<lparr>r_userId = 2, r_movieId = 10, r_rating = 3\<rparr>,
      \<lparr>r_userId = 2, r_movieId = 20, r_rating = 4\<rparr>,
      \<lparr>r_userId = 3, r_movieId = 30, r_rating = 5\<rparr>]"

definition example_movies :: "movie_row list" where
  "example_movies =
     [\<lparr>m_movieId = 10, m_title = ''A'', m_genres = ''Drama''\<rparr>,
      \<lparr>m_movieId = 20, m_title = ''B'', m_genres = ''Comedy''\<rparr>,
      \<lparr>m_movieId = 30, m_title = ''C'', m_genres = ''Action''\<rparr>]"

definition example_df :: "joined_row list" where
  "example_df =
     [\<lparr>userId = 1, movieId = 10, rating = 5, title = ''A'', genres = ''Drama''\<rparr>,
      \<lparr>userId = 2, movieId = 10, rating = 3, title = ''A'', genres = ''Drama''\<rparr>,
      \<lparr>userId = 2, movieId = 20, rating = 4, title = ''B'', genres = ''Comedy''\<rparr>,
      \<lparr>userId = 3, movieId = 30, rating = 5, title = ''C'', genres = ''Action''\<rparr>]"

definition example_matrix :: "(int, string) dataframe" where
  "example_matrix =
     \<lparr>index = [1, 2, 3], columns = [''A'', ''B'', ''C''],
      data = [[5, 0, 0], [3, 4, 0], [0, 0, 5]]\<rparr>"

text \<open>Twenty-four users and two movies. User 1 rated only A; of the others, thirteen
  have similarity 4/5 to user 1, six have 3/5 and four have 0.\<close>

definition tied_users_matrix :: "(int, string) dataframe" where
  "tied_users_matrix =
     \<lparr>index = [1, 2, 3, 4, 5, 6, 7, 8, 9, 10, 11, 12, 13, 14, 15, 16, 17, 18, 19, 20, 21, 22, 23, 24],
      columns = [''A'', ''B''],
      data = [[5, 0], [3, 4], [4, 3], [3, 4], [4, 3], [4, 3], [0, 5], [4, 3],
              [3, 4], [0, 5], [4, 3], [0, 5], [4, 3], [4, 3], [4, 3], [3, 4],
              [3, 4], [4, 3], [4, 3], [4, 3], [0, 5], [3, 4], [4, 3], [0, 5]]\<rparr>"

text \<open>Two users and twenty-five movies. User 1 rated only the first; the ratings of
  user 2, the only neighbour, are the scores of the other twenty-four, fourteen of them
  equal to 5.\<close>

definition tied_scores_matrix :: "(int, string) dataframe" where
  "tied_scores_matrix =
     \<lparr>index = [1, 2],
      columns = [''M00'', ''M01'', ''M02'', ''M03'', ''M04'', ''M05'', ''M06'', ''M07'',
                 ''M08'', ''M09'', ''M10'', ''M11'', ''M12'', ''M13'', ''M14'', ''M15'',
                 ''M16'', ''M17'', ''M18'', ''M19'', ''M20'', ''M21'', ''M22'', ''M23'',
                 ''M24''],
      data = [[5, 0, 0, 0, 0, 0, 0, 0, 0, 0, 0, 0, 0, 0, 0, 0, 0, 0, 0, 0, 0, 0, 0, 0, 0],
              [0, 5, 0, 5, 4, 5, 5, 5, 4, 0, 5, 4, 5, 0, 5, 4, 5, 5, 0, 3, 5, 5, 5, 5, 4]]\<rparr>"

text \<open>Two users and one movie, which user 1 has rated and user 2 has not.\<close>

definition no_unseen_matrix :: "(int, string) dataframe" where
  "no_unseen_matrix = \<lparr>index = [1, 2], columns = [''A''], data = [[5], [0]]\<rparr>"

text \<open>Two users; the only neighbour of user 1 has an all-zero vector.\<close>

definition zero_neighbour_matrix :: "(int, string) dataframe" where
  "zero_neighbour_matrix =
     \<lparr>index = [1, 2], columns = [''A'', ''B''], data = [[5, 0], [0, 0]]\<rparr>"

definition zero_neighbour_df :: "joined_row list" where
  "zero_neighbour_df =
     [\<lparr>userId = 1, movieId = 10, rating = 5, title = ''A'', genres = ''Drama''\<rparr>,
      \<lparr>userId = 2, movieId = 10, rating = 0, title = ''A'', genres = ''Drama''\<rparr>,
      \<lparr>userId = 2, movieId = 20, rating = 0, title = ''B'', genres = ''Comedy''\<rparr>]"

text \<open>A single user.\<close>

definition single_user_matrix :: "(int, string) dataframe" where
  "single_user_matrix = \<lparr>index = [7], columns = [''A'', ''B''], data = [[5, 0]]\<rparr>"

section \<open>Properties of the library operations\<close>

lemma argsort_okD:
  assumes "argsort_ok a"
  shows "mset (a xs) = mset [0..<length xs]" and "sorted (map (\<lambda>i. xs ! i) (a xs))"
  using assms unfolding argsort_ok_def by blast+

lemma mset_map_nth_perm:
  assumes "mset p = mset [0..<length s]"
  shows "mset (map (\<lambda>i. s ! i) p) = mset s"
proof -
  have "mset (map (\<lambda>i. s ! i) p) = image_mset (\<lambda>i. s ! i) (mset p)" by simp
  also have "\<dots> = image_mset (\<lambda>i. s ! i) (mset [0..<length s])" using assms by simp
  also have "\<dots> = mset (map (\<lambda>i. s ! i) [0..<length s])" by simp
  also have "\<dots> = mset s" by (simp add: map_nth)
  finally show ?thesis .
qed

lemma nargsort_perm:
  assumes "argsort_ok a"
  shows "mset (nargsort a xs) = mset [0..<length xs]"
proof -
  have p: "mset (a (rev xs)) = mset [0..<length (rev [0..<length xs])]"
    using argsort_okD(1)[OF assms, of "rev xs"] by simp
  have "mset (nargsort a xs) = mset (map (\<lambda>i. rev [0..<length xs] ! i) (a (rev xs)))"
    by (simp add: nargsort_def Let_def)
  also have "\<dots> = mset (rev [0..<length xs])"
    by (rule mset_map_nth_perm[OF p])
  finally show ?thesis by simp
qed

lemma nargsort_in_range:
  assumes "argsort_ok a" and "i \<in> set (nargsort a xs)"
  shows "i < length xs"
proof -
  have "i \<in># mset (nargsort a xs)" using assms(2) by simp
  then have "i \<in> set [0..<length xs]" unfolding nargsort_perm[OF assms(1)] by simp
  then show ?thesis by simp
qed

lemma nargsort_sorted:
  assumes "argsort_ok a"
  shows "sorted_wrt (\<ge>) (map (\<lambda>i. xs ! i) (nargsort a xs))"
proof -
  let ?n = "length xs"
  let ?p = "a (rev xs)"
  have p: "mset ?p = mset [0..<?n]" using argsort_okD(1)[OF assms, of "rev xs"] by simp
  have in_range: "i < ?n" if "i \<in> set ?p" for i
  proof -
    have "i \<in># mset ?p" using that by simp
    then have "i \<in> set [0..<?n]" unfolding p by simp
    then show ?thesis by simp
  qed
  have s: "sorted (map (\<lambda>i. rev xs ! i) ?p)" using argsort_okD(2)[OF assms, of "rev xs"] .
  have eq: "map (\<lambda>i. xs ! i) (map (\<lambda>i. rev [0..<?n] ! i) ?p) = map (\<lambda>i. rev xs ! i) ?p"
  proof -
    have "xs ! (rev [0..<?n] ! i) = rev xs ! i" if "i \<in> set ?p" for i
    proof -
      have i: "i < ?n" using in_range[OF that] .
      then have "?n - Suc i < ?n" by simp
      then have "[0..<?n] ! (?n - Suc i) = ?n - Suc i" by simp
      then show ?thesis using i by (simp add: rev_nth)
    qed
    then show ?thesis by simp
  qed
  have "map (\<lambda>i. xs ! i) (nargsort a xs) = rev (map (\<lambda>i. rev xs ! i) ?p)"
    using eq by (simp add: nargsort_def Let_def rev_map)
  moreover have "sorted_wrt (\<ge>) (rev (map (\<lambda>i. rev xs ! i) ?p))"
    using s by (simp add: sorted_wrt_rev)
  ultimately show ?thesis by simp
qed

lemma mset_sort_values:
  assumes "argsort_ok a"
  shows "mset (sort_values a s) = mset s"
  unfolding sort_values_def
  by (rule mset_map_nth_perm) (simp add: nargsort_perm[OF assms])

lemma set_sort_values:
  assumes "argsort_ok a"
  shows "set (sort_values a s) = set s"
  using mset_sort_values[OF assms, of s] by (rule mset_eq_setD)

lemma length_sort_values:
  assumes "argsort_ok a"
  shows "length (sort_values a s) = length s"
  using mset_sort_values[OF assms, of s] by (rule mset_eq_length)

lemma sorted_sort_values:
  assumes "argsort_ok a"
  shows "sorted_wrt (\<ge>) (map snd (sort_values a s))"
proof -
  have "map snd (sort_values a s) = map (\<lambda>i. map snd s ! i) (nargsort a (map snd s))"
    using nargsort_in_range[OF assms, of _ "map snd s"]
    by (simp add: sort_values_def)
  then show ?thesis using nargsort_sorted[OF assms, of "map snd s"] by simp
qed

lemma stable_argsort_ok: "argsort_ok stable_argsort"
  by (simp add: argsort_ok_def stable_argsort_def sorted_sort_key)

section \<open>Properties of the program\<close>

lemma position_nth:
  "distinct xs \<Longrightarrow> i < length xs \<Longrightarrow> position (xs ! i) xs = i"
proof (induction xs arbitrary: i)
  case Nil
  then show ?case by simp
next
  case (Cons x xs)
  show ?case
  proof (cases i)
    case 0
    then show ?thesis by simp
  next
    case (Suc k)
    with Cons.prems have "xs ! k \<in> set xs" "x \<notin> set xs" by auto
    then have "xs ! k \<noteq> x" by auto
    with Cons Suc show ?thesis by simp
  qed
qed

lemma position_less:
  "x \<in> set xs \<Longrightarrow> position x xs < length xs"
  by (induction xs) auto

lemma nth_position:
  "x \<in> set xs \<Longrightarrow> xs ! position x xs = x"
  by (induction xs) auto

lemma filter_zip_position:
  assumes "distinct cs" and "length r = length cs"
  shows "map fst (filter (\<lambda>p. snd p = (0::real)) (zip cs r)) = filter (\<lambda>c. r ! position c cs = 0) cs"
  using assms(2,1)
proof (induction r cs rule: list_induct2)
  case Nil
  then show ?case by simp
next
  case (Cons v r c cs)
  define P where "P = (\<lambda>c'. (v # r) ! position c' (c # cs) = 0)"
  have tl: "filter P cs = filter (\<lambda>c'. r ! position c' cs = 0) cs"
    unfolding P_def using Cons.prems by (intro filter_cong refl) auto
  have hd: "P c \<longleftrightarrow> v = 0" by (simp add: P_def)
  have ih: "map fst (filter (\<lambda>p. snd p = 0) (zip cs r)) = filter P cs"
    using Cons.IH Cons.prems tl by simp
  have "map fst (filter (\<lambda>p. snd p = 0) (zip (c # cs) (v # r))) = filter P (c # cs)"
    using ih hd by simp
  then show ?case by (simp only: P_def)
qed

lemma loc_in_data:
  assumes "wf_matrix m" and "u \<in> set (index m)"
  shows "loc m u \<in> set (data m)"
  using assms position_less[of u "index m"] by (simp add: wf_matrix_def loc_def)

lemma length_loc:
  assumes "wf_matrix m" and "u \<in> set (index m)"
  shows "length (loc m u) = length (columns m)"
  using loc_in_data[OF assms] assms(1) by (simp add: wf_matrix_def list_all_iff)

lemma unseen_movies_eq:
  assumes "wf_matrix m" and "u \<in> set (index m)"
  shows "unseen_movies u m = filter (\<lambda>t. cell m u t = 0) (columns m)"
  using filter_zip_position[of "columns m" "loc m u"] assms(1) length_loc[OF assms]
  by (simp add: unseen_movies_def cell_def wf_matrix_def)

lemma map_nth_fun: "map (\<lambda>j. f (xs ! j)) [0..<length xs] = map f xs"
proof -
  have "map (\<lambda>j. f (xs ! j)) [0..<length xs] = map f (map (\<lambda>j. xs ! j) [0..<length xs])"
    by simp
  then show ?thesis by (simp only: map_nth)
qed

lemma mean_axis0_recommendable:
  "mean_axis0 (unseen_movies u m) (recommendable_movies a u m) =
     map (\<lambda>t. (t, spec_mean_score m (map fst (similar_users a u m)) t)) (unseen_movies u m)"
proof -
  let ?un = "unseen_movies u m"
  let ?us = "map fst (similar_users a u m)"
  have len: "length (recommendable_movies a u m) = length ?us"
    by (simp add: recommendable_movies_def similar_users_ratings_def)
  have col: "map (\<lambda>r. r ! j) (recommendable_movies a u m) = map (\<lambda>v. cell m v (?un ! j)) ?us"
    if "j < length ?un" for j
    using that by (simp add: recommendable_movies_def similar_users_ratings_def cell_def)
  have "mean_axis0 ?un (recommendable_movies a u m) =
        map (\<lambda>j. (?un ! j, spec_mean_score m ?us (?un ! j))) [0..<length ?un]"
  proof -
    have "(?un ! j, sum_list (map (\<lambda>r. r ! j) (recommendable_movies a u m))
                     / real (length (recommendable_movies a u m))) =
          (?un ! j, spec_mean_score m ?us (?un ! j))" if "j \<in> set [0..<length ?un]" for j
    proof -
      have "j < length ?un" using that by simp
      then show ?thesis by (simp only: col len spec_mean_score_def)
    qed
    then show ?thesis unfolding mean_axis0_def by (rule map_cong[OF refl])
  qed
  also have "\<dots> = map (\<lambda>t. (t, spec_mean_score m ?us t)) ?un"
    by (rule map_nth_fun)
  finally show ?thesis .
qed

lemma candidates_eq:
  assumes "wf_matrix m" and "u \<in> set (index m)"
  shows "mean_axis0 (unseen_movies u m) (recommendable_movies a u m) = spec_candidates a u m"
proof -
  have "mean_axis0 (unseen_movies u m) (recommendable_movies a u m) =
        map (\<lambda>t. (t, spec_mean_score m (map fst (similar_users a u m)) t)) (unseen_movies u m)"
    by (rule mean_axis0_recommendable)
  also have "\<dots> = spec_candidates a u m"
    by (simp only: spec_candidates_def unseen_movies_eq[OF assms])
  finally show ?thesis .
qed

lemma set_head: "set (head n xs) \<subseteq> set xs"
  by (simp add: head_def set_take_subset)

lemma sqrt_25: "sqrt 25 = 5"
  using real_sqrt_abs[of 5] by simp

lemma example_matrix_wf: "wf_matrix example_matrix"
  by (simp add: wf_matrix_def example_matrix_def)

lemma example_similar_users:
  "similar_users stable_argsort 1 example_matrix = [(2, 3/5), (3, 0)]"
proof -
  have col: "getitem (user_similarity_df example_matrix) 1 = [(1, 1), (2, 3/5), (3, 0)]"
    by (simp add: getitem_def user_similarity_df_def example_matrix_def cosine_similarity_def
        cosine_def row_norm_def dot_def sqrt_25)
  have srt: "nargsort stable_argsort [1, 3/5, 0] = [0, 1, 2]"
    by (simp add: nargsort_def stable_argsort_def Let_def upt_rec)
  show ?thesis
    by (simp add: similar_users_def head_def drop_label_def sort_values_def col srt)
qed

lemma example_top_10:
  "top_10_recommendations stable_argsort 1 example_matrix = [(''C'', 5/2), (''B'', 2)]"
proof -
  have un: "unseen_movies 1 example_matrix = [''B'', ''C'']"
    by (simp add: unseen_movies_def example_matrix_def loc_def)
  have rm: "recommendable_movies stable_argsort 1 example_matrix = [[4, 0], [0, 5]]"
    by (simp add: recommendable_movies_def similar_users_ratings_def example_similar_users un)
       (simp add: example_matrix_def loc_def)
  have mn: "mean_axis0 [''B'', ''C''] [[4, 0], [0, 5]] = [(''B'', 2), (''C'', 5/2)]"
    by (simp add: mean_axis0_def upt_rec)
  have srt: "nargsort stable_argsort [2, 5/2] = [1, 0]"
    by (simp add: nargsort_def stable_argsort_def Let_def upt_rec)
  show ?thesis
    by (simp add: top_10_recommendations_def recommendation_scores_def head_def un rm mn
        sort_values_def srt)
qed

lemma example_get_recommendations:
  "get_recommendations stable_argsort 1 example_matrix example_df =
     ([SimilarUsers 1 [(2, 3/5), (3, 0)], Header 1,
       Rec ''C'' ''Action'' (5/2), Rec ''B'' ''Comedy'' 2], None)"
  by (simp add: get_recommendations_def example_similar_users example_top_10)
     (simp add: example_matrix_def example_df_def)

lemma rec_lines_print_recommendations:
  "\<exists>k. rec_lines (fst (print_recommendations details recs)) = take k recs"
proof (induction recs)
  case Nil
  then show ?case by simp
next
  case (Cons p recs)
  obtain t score where p: "p = (t, score)" by (cases p)
  from Cons obtain k where k: "rec_lines (fst (print_recommendations details recs)) = take k recs"
    by blast
  show ?case
  proof (cases "filter (\<lambda>r. title r = t) details")
    case Nil
    then have "rec_lines (fst (print_recommendations details (p # recs))) = take 0 (p # recs)"
      by (simp add: p)
    then show ?thesis by blast
  next
    case (Cons d ds)
    then have "d \<in> set (filter (\<lambda>r. title r = t) details)" by simp
    then have "title d = t" by simp
    then have "rec_lines (fst (print_recommendations details (p # recs))) = take (Suc k) (p # recs)"
      using Cons k by (auto simp: p split: prod.splits)
    then show ?thesis by blast
  qed
qed

lemma rec_lines_get_recommendations:
  "\<exists>k. rec_lines (fst (get_recommendations a u m df)) = take k (top_10_recommendations a u m)"
proof -
  let ?top = "top_10_recommendations a u m"
  let ?details = "filter (\<lambda>r. title r \<in> set (map fst ?top)) df"
  obtain k where k: "rec_lines (fst (print_recommendations ?details ?top)) = take k ?top"
    using rec_lines_print_recommendations by blast
  have nil: "[] = take 0 ?top" by simp
  show ?thesis
  proof (cases "u \<notin> set (index m) \<or> similar_users a u m = []")
    case True
    then have "rec_lines (fst (get_recommendations a u m df)) = take 0 ?top"
      by (auto simp: get_recommendations_def Let_def)
    then show ?thesis by blast
  next
    case False
    then have "rec_lines (fst (get_recommendations a u m df)) = take k ?top"
      using k by (auto simp: get_recommendations_def Let_def split: prod.splits)
    then show ?thesis by blast
  qed
qed

lemma top_10_subset_candidates:
  assumes "argsort_ok a" and "wf_matrix m" and "u \<in> set (index m)"
  shows "set (top_10_recommendations a u m) \<subseteq> set (spec_candidates a u m)"
proof -
  have "mset (recommendation_scores a u m) = mset (spec_candidates a u m)"
    by (simp add: recommendation_scores_def mset_sort_values[OF assms(1)] candidates_eq[OF assms(2,3)])
  then have "set (recommendation_scores a u m) = set (spec_candidates a u m)"
    by (rule mset_eq_setD)
  then show ?thesis
    using set_head[of 10 "recommendation_scores a u m"] by (simp add: top_10_recommendations_def)
qed

lemmas parse_defs = py_int_def Let_def strip_def is_space_def parse_unsigned_def is_digit_def
  digit_value_def lower_def lower_char_def

lemma main_loop_returns_exit:
  assumes "main_loop a m df stdin out = Some y"
  shows "\<exists>s\<in>set stdin. lower s = ''exit''"
proof (rule main_loop.raw_induct
        [where P = "\<lambda>a m df stdin out y. \<exists>s\<in>set stdin. lower s = ''exit''", OF _ assms],
       goal_cases)
  case (1 f a m df stdin out y)
  note IH = 1(1) and eq = 1(2)
  show ?case
  proof (cases stdin)
    case Nil
    with eq have "f a m df [] (out @ [Prompt, Unexpected EOFError]) = Some y" by simp
    from IH[OF this] show ?thesis by simp
  next
    case (Cons s rest)
    show ?thesis
    proof (cases "lower s = ''exit''")
      case True
      then show ?thesis using Cons by simp
    next
      case False
      with eq Cons obtain out' where "f a m df rest out' = Some y"
        by (auto split: option.splits prod.splits)
      from IH[OF this] show ?thesis using Cons by simp
    qed
  qed
qed

lemma main_loop_exit:
  "lower s = ''exit'' \<Longrightarrow> main_loop a m df (s # rest) out = Some (out @ [Prompt])"
  by (subst main_loop.simps) simp

lemma main_loop_invalid:
  "lower s \<noteq> ''exit'' \<Longrightarrow> py_int s = None \<Longrightarrow>
   main_loop a m df (s # rest) out = main_loop a m df rest (out @ [Prompt, InvalidInput])"
  by (subst main_loop.simps) simp

lemma main_loop_query:
  "lower s \<noteq> ''exit'' \<Longrightarrow> py_int s = Some u \<Longrightarrow>
   main_loop a m df (s # rest) out =
     main_loop a m df rest
       (out @ Prompt # fst (get_recommendations a u m df)
            @ (case snd (get_recommendations a u m df) of None \<Rightarrow> [] | Some e \<Rightarrow> [Unexpected e]))"
  by (subst main_loop.simps) (simp split: prod.splits option.splits)

lemma main_loop_terminates:
  "\<exists>s\<in>set stdin. lower s = ''exit'' \<Longrightarrow> \<exists>res. main_loop a m df stdin out = Some res"
proof (induction stdin arbitrary: out)
  case Nil
  then show ?case by simp
next
  case (Cons s rest)
  show ?case
  proof (cases "lower s = ''exit''")
    case True
    then show ?thesis by (simp add: main_loop_exit)
  next
    case False
    with Cons.prems have ex: "\<exists>s\<in>set rest. lower s = ''exit''" by simp
    show ?thesis
    proof (cases "py_int s")
      case None
      then show ?thesis using False Cons.IH[OF ex] by (simp add: main_loop_invalid)
    next
      case (Some u)
      then show ?thesis using False Cons.IH[OF ex] by (simp add: main_loop_query)
    qed
  qed
qed

lemma main_loop_eof: "main_loop a m df [] out = None"
proof (cases "main_loop a m df [] out")
  case None
  then show ?thesis .
next
  case (Some y)
  then show ?thesis using main_loop_returns_exit[of a m df "[]" out y] by simp
qed

lemma nargsort_stable:
  "filter (\<lambda>i. xs ! i = v) (nargsort stable_argsort xs) = filter (\<lambda>i. xs ! i = v) [0..<length xs]"
proof -
  let ?n = "length xs"
  let ?g = "\<lambda>i. rev [0..<?n] ! i"
  let ?p = "sort_key (\<lambda>i. rev xs ! i) [0..<?n]"
  let ?P = "\<lambda>i. xs ! i = v"
  have g: "xs ! ?g i = rev xs ! i" if "i < ?n" for i
  proof -
    have "?n - Suc i < ?n" using that by simp
    then have "[0..<?n] ! (?n - Suc i) = ?n - Suc i" by simp
    then show ?thesis using that by (simp add: rev_nth)
  qed
  have mg: "map ?g [0..<?n] = rev [0..<?n]"
    using map_nth[of "rev [0..<?n]"] by simp
  have "filter ?P (nargsort stable_argsort xs) = rev (map ?g (filter (?P \<circ> ?g) ?p))"
    by (simp add: nargsort_def stable_argsort_def Let_def filter_map rev_filter rev_map)
  also have "filter (?P \<circ> ?g) ?p = filter (\<lambda>i. rev xs ! i = v) ?p"
    by (rule filter_cong[OF refl]) (simp add: g)
  also have "\<dots> = filter (\<lambda>i. rev xs ! i = v) [0..<?n]"
    by (rule sort_key_stable)
  also have "\<dots> = filter (?P \<circ> ?g) [0..<?n]"
    by (rule filter_cong[OF refl]) (simp add: g)
  also have "rev (map ?g (filter (?P \<circ> ?g) [0..<?n])) = rev (filter ?P (map ?g [0..<?n]))"
    by (simp add: filter_map)
  also have "\<dots> = filter ?P [0..<?n]"
    by (simp only: mg rev_filter[symmetric] rev_rev_ident)
  finally show ?thesis .
qed

lemma sort_values_stable:
  "sort_values stable_argsort s = spec_stable_desc s"
proof -
  let ?ys = "sort_values stable_argsort s"
  let ?q = "nargsort stable_argsort (map snd s)"
  let ?f = "\<lambda>p::'a \<times> real. - snd p"
  have ms: "mset ?ys = mset s" by (rule mset_sort_values[OF stable_argsort_ok])
  have srt: "sorted (map ?f ?ys)"
  proof -
    have "sorted_wrt (\<ge>) (map snd ?ys)" by (rule sorted_sort_values[OF stable_argsort_ok])
    then have "sorted_wrt (\<lambda>x y. ?f x \<le> ?f y) ?ys" by (simp add: sorted_wrt_map)
    then show ?thesis by (simp add: sorted_wrt_map)
  qed
  have stab: "filter (\<lambda>x. ?f k = ?f x) ?ys = filter (\<lambda>x. ?f k = ?f x) s" for k
  proof -
    let ?v = "snd k"
    have q: "i < length s" if "i \<in> set ?q" for i
      using nargsort_in_range[OF stable_argsort_ok that] by simp
    have "filter (\<lambda>x. ?f k = ?f x) ?ys = map (\<lambda>i. s ! i) (filter (\<lambda>i. ?f k = ?f (s ! i)) ?q)"
      by (simp add: sort_values_def filter_map comp_def)
    also have "filter (\<lambda>i. ?f k = ?f (s ! i)) ?q = filter (\<lambda>i. map snd s ! i = ?v) ?q"
      by (rule filter_cong[OF refl]) (auto simp: q)
    also have "\<dots> = filter (\<lambda>i. map snd s ! i = ?v) [0..<length (map snd s)]"
      by (rule nargsort_stable)
    also have "\<dots> = filter (\<lambda>i. ?f k = ?f (s ! i)) [0..<length s]"
      by (rule filter_cong) auto
    also have "map (\<lambda>i. s ! i) (filter (\<lambda>i. ?f k = ?f (s ! i)) [0..<length s])
               = filter (\<lambda>x. ?f k = ?f x) (map (\<lambda>i. s ! i) [0..<length s])"
      by (simp add: filter_map comp_def)
    also have "\<dots> = filter (\<lambda>x. ?f k = ?f x) s" by (simp only: map_nth)
    finally show ?thesis .
  qed
  have "sort_key ?f s = ?ys"
    by (rule properties_for_sort_key[OF ms stab srt])
  then show ?thesis by (simp add: spec_stable_desc_def)
qed

lemma dot_commute: "dot x y = dot y x"
proof -
  have "map2 (*) x y = map2 (*) y (x :: real list)" for x y
  proof (induction x arbitrary: y)
    case Nil
    then show ?case by simp
  next
    case (Cons a x)
    then show ?case by (cases y) (simp_all add: mult.commute)
  qed
  then show ?thesis by (simp add: dot_def)
qed

lemma dot_self_nonneg: "0 \<le> dot x x"
  by (induction x) (simp_all add: dot_def)

lemma dot_self_zero_iff: "dot x x = 0 \<longleftrightarrow> list_all (\<lambda>v. v = 0) x"
proof (induction x)
  case Nil
  then show ?case by (simp add: dot_def)
next
  case (Cons a x)
  have "dot (a # x) (a # x) = a * a + dot x x" by (simp add: dot_def)
  moreover have "a * a + dot x x = 0 \<longleftrightarrow> a = 0 \<and> dot x x = 0"
    using dot_self_nonneg[of x] by (simp add: add_nonneg_eq_0_iff)
  ultimately show ?case using Cons by simp
qed

lemma row_norm_zero_iff: "row_norm x = 0 \<longleftrightarrow> list_all (\<lambda>v. v = 0) x"
  by (simp add: row_norm_def dot_self_zero_iff)

lemma cosine_commute: "cosine x y = cosine y x"
  by (auto simp: cosine_def dot_commute[of x y] mult.commute)

lemma cosine_self: "cosine x x = (if list_all (\<lambda>v. v = 0) x then 0 else 1)"
proof (cases "row_norm x = 0")
  case True
  then show ?thesis using row_norm_zero_iff[of x] by (simp add: cosine_def)
next
  case False
  have "row_norm x * row_norm x = dot x x"
    using dot_self_nonneg[of x] by (simp add: row_norm_def)
  moreover have "dot x x \<noteq> 0" using False by (simp add: row_norm_def)
  ultimately show ?thesis using False row_norm_zero_iff[of x] by (simp add: cosine_def)
qed

lemma cell_user_similarity_df:
  assumes "wf_matrix m" and "u \<in> set (index m)" and "v \<in> set (index m)"
  shows "cell (user_similarity_df m) u v = cosine (loc m u) (loc m v)"
proof -
  have len: "length (data m) = length (index m)" using assms(1) by (simp add: wf_matrix_def)
  have pu: "position u (index m) < length (data m)" using position_less[OF assms(2)] len by simp
  have pv: "position v (index m) < length (data m)" using position_less[OF assms(3)] len by simp
  show ?thesis
    using pu pv by (simp add: cell_def loc_def user_similarity_df_def cosine_similarity_def)
qed

lemma zero_neighbour_matrix_wf: "wf_matrix zero_neighbour_matrix"
  by (simp add: wf_matrix_def zero_neighbour_matrix_def)

lemma getitem_similarity:
  assumes "wf_matrix m" and "u \<in> set (index m)"
  shows "getitem (user_similarity_df m) u = spec_similarities u m"
proof -
  let ?n = "length (index m)"
  have len: "length (data m) = ?n" and dist: "distinct (index m)"
    using assms(1) by (simp_all add: wf_matrix_def)
  have pu: "position u (index m) < length (data m)" using position_less[OF assms(2)] len by simp
  have "getitem (user_similarity_df m) u ! i = spec_similarities u m ! i" if "i < ?n" for i
  proof -
    have "loc m (index m ! i) = data m ! i"
      using position_nth[OF dist that] by (simp add: loc_def)
    then show ?thesis
      using that len pu
      by (simp add: getitem_def user_similarity_df_def cosine_similarity_def
          spec_similarities_def loc_def)
  qed
  moreover have "length (getitem (user_similarity_df m) u) = ?n"
    using len by (simp add: getitem_def user_similarity_df_def cosine_similarity_def)
  moreover have "length (spec_similarities u m) = ?n" by (simp add: spec_similarities_def)
  ultimately show ?thesis by (simp add: list_eq_iff_nth_eq)
qed

lemma length_filter_neq:
  assumes "distinct xs" and "x \<in> set xs"
  shows "length (filter (\<lambda>y. y \<noteq> x) xs) = length xs - 1"
proof -
  have "filter (\<lambda>y. y \<noteq> x) xs = removeAll x xs"
    by (induction xs) auto
  also have "\<dots> = remove1 x xs" using assms(1) by (simp add: distinct_remove1_removeAll)
  finally show ?thesis using assms(2) by (simp add: length_remove1)
qed

lemma length_others:
  assumes "wf_matrix m" and "u \<in> set (index m)"
  shows "length (filter (\<lambda>p. fst p \<noteq> u) (spec_similarities u m)) = length (index m) - 1"
proof -
  have "length (filter (\<lambda>p. fst p \<noteq> u) (spec_similarities u m))
        = length (filter (\<lambda>y. y \<noteq> u) (index m))"
    by (simp add: spec_similarities_def filter_map comp_def)
  then show ?thesis
    using length_filter_neq[of "index m" u] assms by (simp add: wf_matrix_def)
qed

lemma similar_users_sorted_others:
  assumes "argsort_ok a" and "wf_matrix m" and "u \<in> set (index m)"
  shows "similar_users a u m = take 10 (drop_label u (sort_values a (spec_similarities u m)))"
    and "mset (drop_label u (sort_values a (spec_similarities u m)))
         = mset (filter (\<lambda>p. fst p \<noteq> u) (spec_similarities u m))"
    and "sorted_wrt (\<ge>) (map snd (drop_label u (sort_values a (spec_similarities u m))))"
proof -
  show "similar_users a u m = take 10 (drop_label u (sort_values a (spec_similarities u m)))"
    by (simp add: similar_users_def head_def getitem_similarity[OF assms(2,3)])
  show "mset (drop_label u (sort_values a (spec_similarities u m)))
         = mset (filter (\<lambda>p. fst p \<noteq> u) (spec_similarities u m))"
    by (simp add: drop_label_def mset_sort_values[OF assms(1)])
  have "sorted_wrt (\<lambda>x y. snd y \<le> snd x) (sort_values a (spec_similarities u m))"
    using sorted_sort_values[OF assms(1), of "spec_similarities u m"] by (simp add: sorted_wrt_map)
  then have "sorted_wrt (\<lambda>x y. snd y \<le> snd x) (drop_label u (sort_values a (spec_similarities u m)))"
    unfolding drop_label_def by (rule sorted_wrt_filter)
  then show "sorted_wrt (\<ge>) (map snd (drop_label u (sort_values a (spec_similarities u m))))"
    by (simp add: sorted_wrt_map)
qed

lemma length_similar_users:
  assumes "argsort_ok a" and "wf_matrix m" and "u \<in> set (index m)"
  shows "length (similar_users a u m) = min 10 (length (index m) - 1)"
proof -
  have "length (drop_label u (sort_values a (spec_similarities u m))) = length (index m) - 1"
    using mset_eq_length[OF similar_users_sorted_others(2)[OF assms]] length_others[OF assms(2,3)]
    by simp
  then show ?thesis by (simp add: similar_users_sorted_others(1)[OF assms] min.commute)
qed

lemma similar_users_stable:
  assumes "wf_matrix m" and "u \<in> set (index m)"
  shows "similar_users stable_argsort u m = spec_similar_users u m"
  by (simp add: similar_users_sorted_others(1)[OF stable_argsort_ok assms] sort_values_stable
      drop_label_def spec_similar_users_def spec_stable_desc_def filter_sort)

lemma single_user_matrix_wf: "wf_matrix single_user_matrix"
  by (simp add: wf_matrix_def single_user_matrix_def)

lemma no_similar_users_iff:
  assumes "argsort_ok a" and "wf_matrix m" and "u \<in> set (index m)"
  shows "similar_users a u m = [] \<longleftrightarrow> index m = [u]"
proof -
  have pos: "0 < length (index m)" using assms(3) by (auto simp: length_pos_if_in_set)
  have "similar_users a u m = [] \<longleftrightarrow> length (similar_users a u m) = 0" by simp
  also have "\<dots> \<longleftrightarrow> length (index m) = 1"
    using pos unfolding length_similar_users[OF assms] min_def by (cases "index m") auto
  also have "\<dots> \<longleftrightarrow> index m = [u]"
  proof
    assume "length (index m) = 1"
    then obtain x where "index m = [x]" by (cases "index m") auto
    then show "index m = [u]" using assms(3) by simp
  next
    assume "index m = [u]"
    then show "length (index m) = 1" by simp
  qed
  finally show ?thesis .
qed

lemma zero_neighbour_similar_users:
  "similar_users stable_argsort 1 zero_neighbour_matrix = [(2, 0)]"
proof -
  have col: "getitem (user_similarity_df zero_neighbour_matrix) 1 = [(1, 1), (2, 0)]"
    by (simp add: getitem_def user_similarity_df_def zero_neighbour_matrix_def
        cosine_similarity_def cosine_def row_norm_def dot_def sqrt_25)
  have srt: "nargsort stable_argsort [1, 0] = [0, 1]"
    by (simp add: nargsort_def stable_argsort_def Let_def upt_rec)
  show ?thesis
    by (simp add: similar_users_def head_def drop_label_def sort_values_def col srt)
qed

lemma zero_neighbour_top_10:
  "top_10_recommendations stable_argsort 1 zero_neighbour_matrix = [(''B'', 0)]"
proof -
  have un: "unseen_movies 1 zero_neighbour_matrix = [''B'']"
    by (simp add: unseen_movies_def zero_neighbour_matrix_def loc_def)
  have rm: "recommendable_movies stable_argsort 1 zero_neighbour_matrix = [[0]]"
    by (simp add: recommendable_movies_def similar_users_ratings_def
          zero_neighbour_similar_users un)
       (simp add: zero_neighbour_matrix_def loc_def)
  have mn: "mean_axis0 [''B''] [[0]] = [(''B'', 0)]"
    by (simp add: mean_axis0_def)
  have srt2: "nargsort stable_argsort [0] = [0]"
    by (simp add: nargsort_def stable_argsort_def Let_def)
  show ?thesis
    by (simp add: top_10_recommendations_def recommendation_scores_def head_def un rm mn
        sort_values_def srt2)
qed

lemma zero_neighbour_get_recommendations:
  "get_recommendations stable_argsort 1 zero_neighbour_matrix zero_neighbour_df =
     ([SimilarUsers 1 [(2, 0)], Header 1, Rec ''B'' ''Comedy'' 0], None)"
  by (simp add: get_recommendations_def zero_neighbour_similar_users zero_neighbour_top_10)
     (simp add: zero_neighbour_matrix_def zero_neighbour_df_def)

lemma recommendation_scores_ranked:
  assumes "argsort_ok a" and "wf_matrix m" and "u \<in> set (index m)"
  shows "mset (recommendation_scores a u m) = mset (spec_candidates a u m)"
    and "sorted_wrt (\<ge>) (map snd (recommendation_scores a u m))"
    and "recommendation_scores a u m = sort_values a (spec_candidates a u m)"
proof -
  show 3: "recommendation_scores a u m = sort_values a (spec_candidates a u m)"
    by (simp add: recommendation_scores_def candidates_eq[OF assms(2,3)])
  show "mset (recommendation_scores a u m) = mset (spec_candidates a u m)"
    by (simp add: 3 mset_sort_values[OF assms(1)])
  show "sorted_wrt (\<ge>) (map snd (recommendation_scores a u m))"
    by (simp add: 3 sorted_sort_values[OF assms(1)])
qed

lemma sorted_desc_take:
  "sorted_wrt (\<ge>) (map snd xs) \<Longrightarrow> sorted_wrt (\<ge>) (map snd (take k (xs :: ('l \<times> real) list)))"
  by (simp add: take_map[symmetric])

lemma pivot_table_wf: "wf_matrix (pivot_table df)"
  by (simp add: wf_matrix_def pivot_table_def Let_def list_all_iff)

lemma columns_pivot_table: "set (columns (pivot_table df)) = title ` set df"
  by (simp add: pivot_table_def Let_def)

lemma example_create_user_item_matrix:
  "create_user_item_matrix example_ratings example_movies = (example_matrix, example_df)"
  by (simp add: create_user_item_matrix_def merge_def example_ratings_def example_movies_def
      example_df_def pivot_table_def pivot_cell_def example_matrix_def Let_def)

lemma print_recommendations_ok:
  assumes "\<forall>p\<in>set recs. \<exists>r\<in>set details. title r = fst p"
  shows "print_recommendations details recs
         = (map (\<lambda>p. Rec (fst p) (genres (hd (filter (\<lambda>r. title r = fst p) details))) (snd p)) recs,
            None)"
  using assms
proof (induction recs)
  case Nil
  then show ?case by simp
next
  case (Cons p recs)
  obtain t score where p: "p = (t, score)" by (cases p)
  from Cons.prems obtain r where "r \<in> set details" "title r = t" by (auto simp: p)
  then have "r \<in> set (filter (\<lambda>r. title r = t) details)" by simp
  then obtain d ds where f: "filter (\<lambda>r. title r = t) details = d # ds"
    by (cases "filter (\<lambda>r. title r = t) details") auto
  then have "d \<in> set (filter (\<lambda>r. title r = t) details)" by simp
  then have d: "title d = t" by simp
  show ?case using Cons f d by (simp add: p)
qed

lemma top_10_titles_in_columns:
  assumes "argsort_ok a" and "wf_matrix m" and "u \<in> set (index m)"
  shows "fst ` set (top_10_recommendations a u m) \<subseteq> set (columns m)"
  using top_10_subset_candidates[OF assms] by (auto simp: spec_candidates_def)

lemma get_recommendations_no_error:
  assumes "u \<in> set (index m)"
    and "\<forall>p\<in>set (top_10_recommendations a u m).
           \<exists>r\<in>set (filter (\<lambda>r. title r \<in> set (map fst (top_10_recommendations a u m))) df).
             title r = fst p"
  shows "snd (get_recommendations a u m df) = None"
proof -
  let ?top = "top_10_recommendations a u m"
  let ?details = "filter (\<lambda>r. title r \<in> set (map fst ?top)) df"
  obtain out where pr: "print_recommendations ?details ?top = (out, None)"
    using print_recommendations_ok[OF assms(2)] by blast
  show ?thesis
  proof (cases "similar_users a u m = []")
    case True
    then show ?thesis using assms(1) by (simp only: get_recommendations_def Let_def) simp
  next
    case False
    have "get_recommendations a u m df
          = (SimilarUsers u (similar_users a u m) # Header u # out, None)"
      using assms(1) False by (simp only: get_recommendations_def Let_def pr) simp
    then show ?thesis by simp
  qed
qed

lemma top_10_titles_have_rows:
  assumes "argsort_ok a" and "wf_matrix m" and "u \<in> set (index m)"
    and "set (columns m) = title ` set df"
  shows "\<forall>p\<in>set (top_10_recommendations a u m).
           \<exists>r\<in>set (filter (\<lambda>r. title r \<in> set (map fst (top_10_recommendations a u m))) df).
             title r = fst p"
proof
  fix p assume p: "p \<in> set (top_10_recommendations a u m)"
  then have "fst p \<in> fst ` set (top_10_recommendations a u m)" by (rule imageI)
  then have "fst p \<in> set (columns m)"
    using top_10_titles_in_columns[OF assms(1,2,3)] by (rule subsetD[rotated])
  then have "fst p \<in> title ` set df" by (simp only: assms(4))
  then obtain r where r: "r \<in> set df" "title r = fst p" by (auto simp: image_iff)
  have "title r \<in> set (map fst (top_10_recommendations a u m))" using p r(2) by simp
  then have "r \<in> set (filter (\<lambda>r. title r \<in> set (map fst (top_10_recommendations a u m))) df)"
    using r(1) by simp
  then show "\<exists>r\<in>set (filter (\<lambda>r. title r \<in> set (map fst (top_10_recommendations a u m))) df).
             title r = fst p"
    using r(2) by (rule bexI[rotated])
qed

lemma create_user_item_matrix_pivot:
  assumes "create_user_item_matrix ratings movies = (m, df)"
  shows "m = pivot_table df"
proof -
  have "fst (create_user_item_matrix ratings movies) = pivot_table (snd (create_user_item_matrix ratings movies))"
    by (simp add: create_user_item_matrix_def Let_def)
  then show ?thesis by (simp only: assms fst_conv snd_conv)
qed

lemma matched_titles_nonempty:
  assumes "\<forall>p\<in>set recs. \<exists>r\<in>set details. title r = fst p"
  shows "\<forall>(t, score) \<in> set recs. filter (\<lambda>r. title r = t) details \<noteq> []"
proof -
  have "filter (\<lambda>r. title r = fst p) details \<noteq> []" if "p \<in> set recs" for p
  proof -
    have "\<exists>r\<in>set details. title r = fst p" using assms that by (rule bspec)
    then obtain r where r: "r \<in> set details" "title r = fst p" ..
    then have "r \<in> set (filter (\<lambda>r. title r = fst p) details)" by simp
    then have "0 < length (filter (\<lambda>r. title r = fst p) details)"
      by (rule length_pos_if_in_set)
    then show ?thesis by simp
  qed
  then show ?thesis by (simp add: case_prod_beta)
qed

lemma length_top_10:
  assumes "argsort_ok a"
  shows "length (top_10_recommendations a u m) = min 10 (length (unseen_movies u m))"
  by (simp add: top_10_recommendations_def head_def recommendation_scores_def
      length_sort_values[OF assms] mean_axis0_def min.commute)

lemma similar_users_labels:
  assumes "argsort_ok a" and "wf_matrix m" and "u \<in> set (index m)"
  shows "fst ` set (similar_users a u m) \<subseteq> set (index m) - {u}"
proof -
  have "set (similar_users a u m) \<subseteq> set (drop_label u (sort_values a (spec_similarities u m)))"
    by (simp add: similar_users_sorted_others(1)[OF assms] set_take_subset)
  also have "\<dots> \<subseteq> {p \<in> set (spec_similarities u m). fst p \<noteq> u}"
    by (auto simp: drop_label_def set_sort_values[OF assms(1)])
  finally show ?thesis by (auto simp: spec_similarities_def)
qed

lemma sum_list_all_zero:
  "(\<And>x. x \<in> set xs \<Longrightarrow> f x = (0::real)) \<Longrightarrow> sum_list (map f xs) = 0"
  by (induction xs) simp_all

lemma zero_rows_zero_scores:
  assumes "argsort_ok a" and "wf_matrix m" and "u \<in> set (index m)"
    and zero: "list_all (\<lambda>v. v = u \<or> list_all (\<lambda>x. x = 0) (loc m v)) (index m)"
  shows "list_all (\<lambda>p. snd p = 0) (top_10_recommendations a u m)"
proof -
  have cell0: "cell m v t = 0" if v: "v \<in> fst ` set (similar_users a u m)" and t: "t \<in> set (columns m)" for v t
  proof -
    have vi: "v \<in> set (index m)" and vu: "v \<noteq> u"
      using similar_users_labels[OF assms(1,2,3)] v by auto
    have all0: "list_all (\<lambda>x. x = 0) (loc m v)"
      using zero vi vu by (auto simp: list_all_iff)
    have "position t (columns m) < length (loc m v)"
      using position_less[OF t] length_loc[OF assms(2) vi] by simp
    then have "loc m v ! position t (columns m) \<in> set (loc m v)" by (rule nth_mem)
    then show ?thesis using all0 by (simp add: cell_def list_all_iff)
  qed
  have "snd p = 0" if p: "p \<in> set (top_10_recommendations a u m)" for p
  proof -
    have "p \<in> set (spec_candidates a u m)"
      using top_10_subset_candidates[OF assms(1,2,3)] p by blast
    then obtain t where t: "t \<in> set (columns m)"
      and pt: "p = (t, spec_mean_score m (map fst (similar_users a u m)) t)"
      by (auto simp: spec_candidates_def)
    have "cell m v t = 0" if "v \<in> set (map fst (similar_users a u m))" for v
      using that cell0[OF _ t] by simp
    then have "sum_list (map (\<lambda>v. cell m v t) (map fst (similar_users a u m))) = 0"
      by (rule sum_list_all_zero)
    then have "spec_mean_score m (map fst (similar_users a u m)) t = 0"
      by (simp only: spec_mean_score_def div_0)
    then show ?thesis by (simp add: pt)
  qed
  then show ?thesis by (simp add: list_all_iff)
qed

lemma get_recommendations_prints_similar_users:
  assumes "u \<in> set (index m)" and "similar_users a u m \<noteq> []"
  shows "take 2 (fst (get_recommendations a u m df)) = [SimilarUsers u (similar_users a u m), Header u]"
  using assms by (simp add: get_recommendations_def Let_def split: prod.splits)

lemma tied_users_matrix_wf: "wf_matrix tied_users_matrix"
  by (simp add: wf_matrix_def tied_users_matrix_def)

lemma tied_users_similarities:
  "spec_similarities 1 tied_users_matrix =
     [(1, 1), (2, 3/5), (3, 4/5), (4, 3/5), (5, 4/5), (6, 4/5), (7, 0), (8, 4/5),
      (9, 3/5), (10, 0), (11, 4/5), (12, 0), (13, 4/5), (14, 4/5), (15, 4/5), (16, 3/5),
      (17, 3/5), (18, 4/5), (19, 4/5), (20, 4/5), (21, 0), (22, 3/5), (23, 4/5), (24, 0)]"
  by (simp add: spec_similarities_def tied_users_matrix_def loc_def cosine_def row_norm_def
      dot_def sqrt_25)

lemma tied_users_nargsort:
  "nargsort numpy_argsort
     [1, 3/5, 4/5, 3/5, 4/5, 4/5, 0, 4/5, 3/5, 0, 4/5, 0, 4/5, 4/5, 4/5, 3/5, 3/5, 4/5, 4/5,
      4/5, 0, 3/5, 4/5, 0] =
     [0, 10, 22, 19, 18, 17, 14, 13, 12, 7, 5, 4, 2, 8, 1, 15, 16, 3, 21, 9, 11, 6, 20, 23]"
  by code_simp

lemma tied_users_similar_users:
  "similar_users numpy_argsort 1 tied_users_matrix =
     [(11, 4/5), (23, 4/5), (20, 4/5), (19, 4/5), (18, 4/5), (15, 4/5), (14, 4/5), (13, 4/5),
      (8, 4/5), (6, 4/5)]"
proof -
  have u: "(1::int) \<in> set (index tied_users_matrix)" by (simp add: tied_users_matrix_def)
  show ?thesis
    by (simp add: similar_users_def getitem_similarity[OF tied_users_matrix_wf u]
        tied_users_similarities sort_values_def tied_users_nargsort drop_label_def head_def)
qed

lemma tied_users_spec_similar_users:
  "spec_similar_users 1 tied_users_matrix =
     [(3, 4/5), (5, 4/5), (6, 4/5), (8, 4/5), (11, 4/5), (13, 4/5), (14, 4/5), (15, 4/5),
      (18, 4/5), (19, 4/5)]"
  by (simp add: spec_similar_users_def tied_users_similarities spec_stable_desc_def)

lemma tied_scores_matrix_wf: "wf_matrix tied_scores_matrix"
  by (simp add: wf_matrix_def tied_scores_matrix_def)

lemma tied_scores_similar_users:
  "similar_users numpy_argsort 1 tied_scores_matrix = [(2, 0)]"
proof -
  have u: "(1::int) \<in> set (index tied_scores_matrix)" by (simp add: tied_scores_matrix_def)
  have sims: "spec_similarities 1 tied_scores_matrix = [(1, 1), (2, 0)]"
    by (simp add: spec_similarities_def tied_scores_matrix_def loc_def cosine_def row_norm_def
        dot_def sqrt_25)
  have srt: "nargsort numpy_argsort [1, 0] = [0, 1]"
    by code_simp
  show ?thesis
    by (simp add: similar_users_def getitem_similarity[OF tied_scores_matrix_wf u] sims
        sort_values_def srt drop_label_def head_def)
qed

lemma tied_scores_candidates:
  "spec_candidates numpy_argsort 1 tied_scores_matrix =
     [(''M01'', 5), (''M02'', 0), (''M03'', 5), (''M04'', 4), (''M05'', 5), (''M06'', 5),
      (''M07'', 5), (''M08'', 4), (''M09'', 0), (''M10'', 5), (''M11'', 4), (''M12'', 5),
      (''M13'', 0), (''M14'', 5), (''M15'', 4), (''M16'', 5), (''M17'', 5), (''M18'', 0),
      (''M19'', 3), (''M20'', 5), (''M21'', 5), (''M22'', 5), (''M23'', 5), (''M24'', 4)]"
proof -
  have u: "(1::int) \<in> set (index tied_scores_matrix)" by (simp add: tied_scores_matrix_def)
  have un: "unseen_movies 1 tied_scores_matrix =
     [''M01'', ''M02'', ''M03'', ''M04'', ''M05'', ''M06'', ''M07'', ''M08'',
      ''M09'', ''M10'', ''M11'', ''M12'', ''M13'', ''M14'', ''M15'', ''M16'',
      ''M17'', ''M18'', ''M19'', ''M20'', ''M21'', ''M22'', ''M23'', ''M24'']"
    by (simp add: unseen_movies_def tied_scores_matrix_def loc_def)
  have "spec_candidates numpy_argsort 1 tied_scores_matrix =
        map (\<lambda>t. (t, spec_mean_score tied_scores_matrix [2] t)) (unseen_movies 1 tied_scores_matrix)"
    by (simp add: spec_candidates_def unseen_movies_eq[OF tied_scores_matrix_wf u]
        tied_scores_similar_users)
  then show ?thesis
    by (simp add: un spec_mean_score_def cell_def)
       (simp add: tied_scores_matrix_def loc_def)
qed

lemma tied_scores_nargsort:
  "nargsort numpy_argsort [5, 0, 5, 4, 5, 5, 5, 4, 0, 5, 4, 5, 0, 5, 4, 5, 5, 0, 3, 5, 5, 5, 5, 4] =
     [0, 15, 2, 22, 4, 5, 6, 21, 20, 9, 19, 11, 16, 13, 23, 14, 10, 7, 3, 18, 1, 17, 8, 12]"
  by code_simp

lemma tied_scores_top_10:
  "top_10_recommendations numpy_argsort 1 tied_scores_matrix =
     [(''M01'', 5), (''M16'', 5), (''M03'', 5), (''M23'', 5), (''M05'', 5), (''M06'', 5),
      (''M07'', 5), (''M22'', 5), (''M21'', 5), (''M10'', 5)]"
proof -
  have u: "(1::int) \<in> set (index tied_scores_matrix)" by (simp add: tied_scores_matrix_def)
  have "recommendation_scores numpy_argsort 1 tied_scores_matrix =
        sort_values numpy_argsort (spec_candidates numpy_argsort 1 tied_scores_matrix)"
    by (simp add: recommendation_scores_def candidates_eq[OF tied_scores_matrix_wf u])
  then show ?thesis
    by (simp add: top_10_recommendations_def head_def tied_scores_candidates sort_values_def
        tied_scores_nargsort)
qed

lemma tied_scores_spec_top_10:
  "take 10 (spec_stable_desc (spec_candidates numpy_argsort 1 tied_scores_matrix)) =
     [(''M01'', 5), (''M03'', 5), (''M05'', 5), (''M06'', 5), (''M07'', 5), (''M10'', 5),
      (''M12'', 5), (''M14'', 5), (''M16'', 5), (''M17'', 5)]"
  by (simp add: tied_scores_candidates spec_stable_desc_def)

lemma mask_filter:
  "map fst (filter snd (zip cs (map (\<lambda>p. snd p = (0::real)) (zip cs r))))
   = map fst (filter (\<lambda>p. snd p = 0) (zip cs r))"
proof (induction cs arbitrary: r)
  case Nil
  then show ?case by simp
next
  case (Cons c cs)
  then show ?case by (cases r) simp_all
qed

lemma mask_filter_map:
  "map (g \<circ> fst) (filter snd (zip cs (map (\<lambda>p. snd p = (0::real)) (zip cs r))))
   = map (g \<circ> fst) (filter (\<lambda>p. snd p = 0) (zip cs r))"
proof -
  have "map (g \<circ> fst) (filter snd (zip cs (map (\<lambda>p. snd p = (0::real)) (zip cs r))))
        = map g (map fst (filter snd (zip cs (map (\<lambda>p. snd p = (0::real)) (zip cs r)))))"
    by simp
  also have "\<dots> = map g (map fst (filter (\<lambda>p. snd p = 0) (zip cs r)))"
    by (simp only: mask_filter)
  finally show ?thesis by simp
qed

lemma reader_simps:
  "frame_of (DataFrameObj m) = m" "similarity_of (SimilarityObj sm) = sm"
  "ndarray_of (NdarrayObj x) = x" "user_series_of (UserSeriesObj us) = us"
  "title_series_of (TitleSeriesObj ts) = ts" "mask_of (MaskObj b) = b"
  "title_index_of (TitleIndexObj ti) = ti" "table_of (TableObj t) = t"
  by (simp_all add: frame_of_def similarity_of_def ndarray_of_def user_series_of_def
      title_series_of_def mask_of_def title_index_of_def table_of_def)

lemma find_similar_users_store_eq:
  assumes "pm < length h" and "h ! pm = DataFrameObj m"
  shows "find_similar_users_store a u pm h =
           (length h + 5,
            h @ [NdarrayObj (cosine_similarity (data m)),
                 SimilarityObj (user_similarity_df m),
                 UserSeriesObj (getitem (user_similarity_df m) u),
                 UserSeriesObj (sort_values a (getitem (user_similarity_df m) u)),
                 UserSeriesObj (drop_label u (sort_values a (getitem (user_similarity_df m) u))),
                 UserSeriesObj (similar_users a u m)])"
  using assms
  by (simp add: find_similar_users_store_def new_def nth_append reader_simps
      similar_users_def user_similarity_df_def)

lemma rank_movies_store_eq:
  assumes "pm < length h" and "h ! pm = DataFrameObj m"
    and "ps < length h" and "h ! ps = UserSeriesObj (similar_users a u m)"
  shows "rank_movies_store a u pm ps h =
           (length h + 7,
            h @ [DataFrameObj (loc_rows m (map fst (similar_users a u m))),
                 TitleSeriesObj (zip (columns m) (loc m u)),
                 MaskObj (map (\<lambda>p. snd p = 0) (zip (columns m) (loc m u))),
                 TitleIndexObj (unseen_movies u m),
                 DataFrameObj (select_columns (loc_rows m (map fst (similar_users a u m)))
                                 (unseen_movies u m)),
                 TitleSeriesObj (mean_axis0 (unseen_movies u m) (recommendable_movies a u m)),
                 TitleSeriesObj (recommendation_scores a u m),
                 TitleSeriesObj (top_10_recommendations a u m)])"
  using assms
  by (simp add: rank_movies_store_def new_def nth_append reader_simps
      top_10_recommendations_def recommendation_scores_def recommendable_movies_def
      similar_users_ratings_def unseen_movies_def loc_rows_def select_columns_def mask_filter
      mask_filter_map)


lemma get_recommendations_store_eq:
  assumes "pm < length h" and "pdf < length h"
    and "h ! pm = DataFrameObj m" and "h ! pdf = TableObj df"
  shows "\<exists>created. get_recommendations_store a u pm pdf h
           = (get_recommendations a u m df, h @ created)"
proof (cases "u \<in> set (index m)")
  case False
  then have "get_recommendations_store a u pm pdf h = (get_recommendations a u m df, h @ [])"
    using assms by (simp add: get_recommendations_store_def get_recommendations_def reader_simps)
  then show ?thesis by blast
next
  case True
  obtain c6 where c6: "find_similar_users_store a u pm h = (length h + 5, h @ c6)"
    and l6: "length c6 = 6" and s6: "c6 ! 5 = UserSeriesObj (similar_users a u m)"
    using find_similar_users_store_eq[OF assms(1,3), of a u] by simp
  define h6 where "h6 = h @ c6"
  have pm6: "pm < length h6" "h6 ! pm = DataFrameObj m"
    and pdf6: "pdf < length h6" "h6 ! pdf = TableObj df"
    and ps6: "length h + 5 < length h6" "h6 ! (length h + 5) = UserSeriesObj (similar_users a u m)"
    using assms l6 s6 by (simp_all add: h6_def nth_append)
  show ?thesis
  proof (cases "similar_users a u m = []")
    case empty: True
    have "get_recommendations_store a u pm pdf h = (get_recommendations a u m df, h @ c6)"
      using assms(3) True empty ps6(2)
      by (simp add: get_recommendations_store_def get_recommendations_def c6 reader_simps
          h6_def[symmetric])
    then show ?thesis by blast
  next
    case False
    obtain c14 where c14: "rank_movies_store a u pm (length h + 5) h6 = (length h6 + 7, h6 @ c14)"
      and l14: "length c14 = 8" and s14: "c14 ! 7 = TitleSeriesObj (top_10_recommendations a u m)"
      using rank_movies_store_eq[OF pm6 ps6, of ] by simp
    define h14 where "h14 = h6 @ c14"
    have pdf14: "h14 ! pdf = TableObj df"
      and ps14: "h14 ! (length h + 5) = UserSeriesObj (similar_users a u m)"
      and pt14: "h14 ! (length h6 + 7) = TitleSeriesObj (top_10_recommendations a u m)"
      using pdf6 ps6 l14 s14 by (simp_all add: h14_def nth_append)
    define o15 where
      "o15 = TableObj (filter (\<lambda>r. title r \<in> set (map fst (top_10_recommendations a u m))) df)"
    define h15 where "h15 = h14 @ [o15]"
    have len14: "length h14 = length h6 + 8" by (simp add: h14_def l14)
    have n15: "new (TableObj (filter (\<lambda>r. title r \<in> set (map fst
                 (title_series_of (h14 ! (length h6 + 7))))) (table_of (h14 ! pdf)))) h14
               = (length h14, h15)"
      by (simp only: pt14 pdf14 reader_simps new_def h15_def o15_def)
    have r15: "table_of (h15 ! length h14) = filter (\<lambda>r. title r \<in> set (map fst (top_10_recommendations a u m))) df"
      and t15: "title_series_of (h15 ! (length h6 + 7)) = top_10_recommendations a u m"
      and u15: "user_series_of (h15 ! (length h + 5)) = similar_users a u m"
      using pt14 ps14 ps6(1) len14
      by (simp_all add: h15_def o15_def nth_append reader_simps h14_def[symmetric] h6_def l6)
    have "get_recommendations_store a u pm pdf h = (get_recommendations a u m df, h15)"
      using assms(3) True False ps6(2)
      apply (simp only: get_recommendations_store_def get_recommendations_def c6 c14 h6_def[symmetric]
          h14_def[symmetric] n15 r15 t15 u15 reader_simps Let_def prod.case if_False not_True_eq_False
          simp_thms split: prod.splits)
      apply (intro allI impI)
      apply (simp only: prod.inject)
      done
    moreover have "h15 = h @ (c6 @ c14 @ [o15])" by (simp add: h15_def h14_def h6_def)
    ultimately show ?thesis by blast
  qed
qed

section \<open>Claims\<close>

text \<open>
  C1. For a target user present in the matrix, every candidate movie (a column where the
  target's entry is 0) gets as its score the unweighted arithmetic mean of that column
  over the selected similar users, at most 10 of them, zero entries included; the
  similarity values are no weights. The scored candidates are, up to order, exactly the
  pairs of \<open>spec_candidates\<close>, and every entry of the top 10, and every recommendation
  line that is printed, carries that mean.
\<close>

theorem recommendation_score_is_unweighted_mean:
  assumes "argsort_ok argsort" and "wf_matrix m" and "user_id \<in> set (index m)"
  shows "mset (recommendation_scores argsort user_id m) = mset (spec_candidates argsort user_id m)
       \<and> (\<forall>(t, score) \<in> set (top_10_recommendations argsort user_id m).
            score = spec_mean_score m (map fst (similar_users argsort user_id m)) t)
       \<and> (\<forall>(t, score) \<in> set (rec_lines (fst (get_recommendations argsort user_id m movies_df))).
            score = spec_mean_score m (map fst (similar_users argsort user_id m)) t)
       \<and> length (similar_users argsort user_id m) \<le> 10"
proof -
  let ?top = "top_10_recommendations argsort user_id m"
  have ms: "mset (recommendation_scores argsort user_id m) = mset (spec_candidates argsort user_id m)"
    by (simp add: recommendation_scores_def mset_sort_values[OF assms(1)] candidates_eq[OF assms(2,3)])
  have top: "\<forall>(t, score) \<in> set ?top.
            score = spec_mean_score m (map fst (similar_users argsort user_id m)) t"
    using top_10_subset_candidates[OF assms] by (auto simp: spec_candidates_def)
  obtain k where k: "rec_lines (fst (get_recommendations argsort user_id m movies_df)) = take k ?top"
    using rec_lines_get_recommendations by blast
  have printed: "\<forall>(t, score) \<in> set (rec_lines (fst (get_recommendations argsort user_id m movies_df))).
            score = spec_mean_score m (map fst (similar_users argsort user_id m)) t"
    unfolding k using top set_take_subset[of k ?top] by blast
  have "length (similar_users argsort user_id m) \<le> 10"
    by (simp add: similar_users_def head_def)
  then show ?thesis using ms top printed by simp
qed

theorem recommendation_score_is_unweighted_mean_witness:
  "mset (recommendation_scores stable_argsort 1 example_matrix)
     = mset (spec_candidates stable_argsort 1 example_matrix)
   \<and> top_10_recommendations stable_argsort 1 example_matrix = [(''C'', 5/2), (''B'', 2)]
   \<and> spec_mean_score example_matrix [2, 3] ''C'' = 5/2
   \<and> spec_mean_score example_matrix [2, 3] ''B'' = 2"
proof -
  have u: "(1::int) \<in> set (index example_matrix)" by (simp add: example_matrix_def)
  have "spec_mean_score example_matrix (map fst (similar_users stable_argsort 1 example_matrix)) ''C'' = 5/2"
       "spec_mean_score example_matrix (map fst (similar_users stable_argsort 1 example_matrix)) ''B'' = 2"
    using recommendation_score_is_unweighted_mean
            [OF stable_argsort_ok example_matrix_wf u, of example_df]
    by (simp_all add: example_top_10)
  then show ?thesis
    using recommendation_score_is_unweighted_mean
            [OF stable_argsort_ok example_matrix_wf u, of example_df]
    by (simp add: example_top_10 example_similar_users)
qed

text \<open>
  C2. For a target user present in the matrix, the recommendation list has at most 10
  entries, and the target user's matrix value is 0 in the column of every recommended
  movie, both in the list of line 71 and in the lines that are printed, whatever joined
  table is passed.
\<close>

theorem never_recommends_rated_movie:
  assumes "argsort_ok argsort" and "wf_matrix m" and "user_id \<in> set (index m)"
  shows "length (top_10_recommendations argsort user_id m) \<le> 10
       \<and> (\<forall>(t, score) \<in> set (top_10_recommendations argsort user_id m). cell m user_id t = 0)
       \<and> length (rec_lines (fst (get_recommendations argsort user_id m movies_df))) \<le> 10
       \<and> (\<forall>(t, score) \<in> set (rec_lines (fst (get_recommendations argsort user_id m movies_df))).
            cell m user_id t = 0)"
proof -
  let ?top = "top_10_recommendations argsort user_id m"
  have len: "length ?top \<le> 10" by (simp add: top_10_recommendations_def head_def)
  have zero: "\<forall>(t, score) \<in> set ?top. cell m user_id t = 0"
    using top_10_subset_candidates[OF assms] by (auto simp: spec_candidates_def)
  obtain k where k: "rec_lines (fst (get_recommendations argsort user_id m movies_df)) = take k ?top"
    using rec_lines_get_recommendations by blast
  have "length (take k ?top) \<le> 10" using len by simp
  moreover have "\<forall>(t, score) \<in> set (take k ?top). cell m user_id t = 0"
    using zero set_take_subset[of k ?top] by blast
  ultimately show ?thesis using len zero k by simp
qed

theorem never_recommends_rated_movie_witness:
  "rec_lines (fst (get_recommendations stable_argsort 1 example_matrix example_df))
     = [(''C'', 5/2), (''B'', 2)]
   \<and> cell example_matrix 1 ''C'' = 0 \<and> cell example_matrix 1 ''B'' = 0
   \<and> length (top_10_recommendations stable_argsort 1 example_matrix) \<le> 10"
proof -
  have u: "(1::int) \<in> set (index example_matrix)" by (simp add: example_matrix_def)
  show ?thesis
    using never_recommends_rated_movie[OF stable_argsort_ok example_matrix_wf u, of example_df]
    by (simp add: example_get_recommendations)
qed

text \<open>
  C3, as stated: the selected similar users are the users other than the target, sorted
  descending by similarity with ties in row order, cut to the first 10. Line 46 asks
  for no stable sort, and the tie order fails under numpy's quicksort as soon as the
  similarity column is long enough to be partitioned. In \<open>tied_users_matrix\<close> thirteen
  users have similarity 4/5 to user 1; in row order the first ten of them are users
  3, 5, 6, 8, 11, 13, 14, 15, 18 and 19, and that is not the list that is selected.
\<close>

theorem similar_users_tie_order_counterexample:
  "spec_similar_users 1 tied_users_matrix =
     [(3, 4/5), (5, 4/5), (6, 4/5), (8, 4/5), (11, 4/5), (13, 4/5), (14, 4/5), (15, 4/5),
      (18, 4/5), (19, 4/5)]
   \<and> similar_users numpy_argsort 1 tied_users_matrix \<noteq> spec_similar_users 1 tied_users_matrix"
  by (simp add: tied_users_similar_users tied_users_spec_similar_users)

text \<open>
  C3, amended. For a target user present in the matrix, the selected similar users are
  the first 10 (all, if fewer) of a list that holds exactly the users other than the
  target with their similarities to the target, in non-increasing order of similarity;
  the target itself is never among them, and their number is the smaller of 10 and the
  number of other users. The order among equal similarities is that of the sort used:
  with a stable sort it is the row order of the matrix, as the specification words it.
\<close>

theorem similar_users_top_10_descending:
  assumes "argsort_ok argsort" and "wf_matrix m" and "user_id \<in> set (index m)"
  shows "(\<exists>others. similar_users argsort user_id m = take 10 others
            \<and> mset others = mset (filter (\<lambda>p. fst p \<noteq> user_id) (spec_similarities user_id m))
            \<and> sorted_wrt (\<ge>) (map snd others))
       \<and> user_id \<notin> fst ` set (similar_users argsort user_id m)
       \<and> length (similar_users argsort user_id m) = min 10 (length (index m) - 1)
       \<and> similar_users stable_argsort user_id m = spec_similar_users user_id m"
proof -
  let ?others = "drop_label user_id (sort_values argsort (spec_similarities user_id m))"
  have "similar_users argsort user_id m = take 10 ?others
            \<and> mset ?others = mset (filter (\<lambda>p. fst p \<noteq> user_id) (spec_similarities user_id m))
            \<and> sorted_wrt (\<ge>) (map snd ?others)"
    using similar_users_sorted_others[OF assms] by blast
  then have 1: "\<exists>others. similar_users argsort user_id m = take 10 others
            \<and> mset others = mset (filter (\<lambda>p. fst p \<noteq> user_id) (spec_similarities user_id m))
            \<and> sorted_wrt (\<ge>) (map snd others)"
    by blast
  have "set (similar_users argsort user_id m) \<subseteq> set ?others"
    by (simp add: similar_users_sorted_others(1)[OF assms] set_take_subset)
  then have 2: "user_id \<notin> fst ` set (similar_users argsort user_id m)"
    by (auto simp: drop_label_def)
  show ?thesis
    using 1 2 length_similar_users[OF assms] similar_users_stable[OF assms(2,3)] by blast
qed

theorem similar_users_top_10_descending_witness:
  "similar_users stable_argsort 1 example_matrix = [(2, 3/5), (3, 0)]
   \<and> 1 \<notin> fst ` set (similar_users stable_argsort 1 example_matrix)
   \<and> length (similar_users stable_argsort 1 example_matrix) = min 10 (length (index example_matrix) - 1)
   \<and> spec_similar_users 1 example_matrix = [(2, 3/5), (3, 0)]"
proof -
  have u: "(1::int) \<in> set (index example_matrix)" by (simp add: example_matrix_def)
  have "spec_similar_users 1 example_matrix = similar_users stable_argsort 1 example_matrix"
    using similar_users_top_10_descending[OF stable_argsort_ok example_matrix_wf u] by simp
  then have s: "spec_similar_users 1 example_matrix = [(2, 3/5), (3, 0)]"
    by (simp only: example_similar_users)
  have l: "length (index example_matrix) = 3" by (simp add: example_matrix_def)
  show ?thesis
    by (simp add: example_similar_users s l)
qed

text \<open>
  C4. For a user identifier that is no row label of the matrix, \<^verbatim>\<open>get_recommendations\<close>
  prints the error line naming the identifier and returns at once, without raising:
  the result is that single line whatever the matrix, the joined table and the sort are,
  so nothing of the similarity matrix or of the recommendations enters it. The query
  loop goes on with the next line.
\<close>

theorem user_not_found:
  assumes "user_id \<notin> set (index m)"
  shows "get_recommendations argsort user_id m movies_df = ([UserNotFound user_id], None)
       \<and> (\<forall>line rest out. lower line \<noteq> ''exit'' \<and> py_int line = Some user_id \<longrightarrow>
            main_loop argsort m movies_df (line # rest) out =
              main_loop argsort m movies_df rest (out @ [Prompt, UserNotFound user_id]))"
  using assms by (simp add: main_loop_query) (simp add: get_recommendations_def)

theorem user_not_found_witness:
  "get_recommendations stable_argsort 9 example_matrix example_df = ([UserNotFound 9], None)
   \<and> main_loop stable_argsort example_matrix example_df [''9'', ''exit''] []
       = Some [Prompt, UserNotFound 9, Prompt]"
proof -
  have u: "(9::int) \<notin> set (index example_matrix)" by (simp add: example_matrix_def)
  have l: "lower ''9'' \<noteq> ''exit''" by (simp add: parse_defs)
  have p: "py_int ''9'' = Some 9" by (simp add: parse_defs)
  have e: "lower ''exit'' = ''exit''" by (simp add: parse_defs)
  show ?thesis
    using user_not_found[OF u, of stable_argsort example_df] l p
    by (simp add: main_loop_exit[OF e])
qed

text \<open>
  C5, as stated: the query loop ends cleanly on the exit keyword and also on end of
  input. It does not end on end of input: with nothing left to read, \<^verbatim>\<open>input\<close> raises
  \<^verbatim>\<open>EOFError\<close>, the handler for \<^verbatim>\<open>Exception\<close> reports it, and the loop prompts
  again, for ever.
\<close>

theorem end_of_input_counterexample:
  "main_loop stable_argsort example_matrix example_df [] [] = None"
  by (rule main_loop_eof)

text \<open>
  C5, amended. A line that is neither the exit keyword nor an integer is answered by
  the invalid-input message and the loop goes on with the next line; an integer is
  passed to \<^verbatim>\<open>get_recommendations\<close> and the loop goes on; the exit keyword, in any
  letter case, ends the loop normally; and the loop does end whenever some line of the
  input is the exit keyword.
\<close>

theorem query_loop_behaviour:
  "(lower line \<noteq> ''exit'' \<and> py_int line = None \<longrightarrow>
      main_loop argsort m df (line # rest) out =
        main_loop argsort m df rest (out @ [Prompt, InvalidInput]))
   \<and> (lower line \<noteq> ''exit'' \<and> py_int line = Some u \<longrightarrow>
      main_loop argsort m df (line # rest) out =
        main_loop argsort m df rest
          (out @ Prompt # fst (get_recommendations argsort u m df)
               @ (case snd (get_recommendations argsort u m df) of
                    None \<Rightarrow> [] | Some e \<Rightarrow> [Unexpected e])))
   \<and> (lower line = ''exit'' \<longrightarrow>
      main_loop argsort m df (line # rest) out = Some (out @ [Prompt]))
   \<and> ((\<exists>s\<in>set stdin. lower s = ''exit'') \<longrightarrow>
      (\<exists>res. main_loop argsort m df stdin out = Some res))"
  using main_loop_invalid[of line argsort m df rest out]
        main_loop_query[of line u argsort m df rest out]
        main_loop_exit[of line argsort m df rest out]
        main_loop_terminates[of stdin argsort m df out]
  by blast

theorem query_loop_behaviour_witness:
  "main_loop stable_argsort example_matrix example_df [''abc'', ''1 2'', ''EXIT'', ''3''] []
     = Some [Prompt, InvalidInput, Prompt, InvalidInput, Prompt]"
proof -
  have 1: "lower ''abc'' \<noteq> ''exit'' \<and> py_int ''abc'' = None" by (simp add: parse_defs)
  have 2: "lower ''1 2'' \<noteq> ''exit'' \<and> py_int ''1 2'' = None" by (simp add: parse_defs)
  have 3: "lower ''EXIT'' = ''exit''" by (simp add: parse_defs)
  show ?thesis
    using query_loop_behaviour[of "''abc''" stable_argsort example_matrix example_df
            "[''1 2'', ''EXIT'', ''3'']" "[]"]
          query_loop_behaviour[of "''1 2''" stable_argsort example_matrix example_df
            "[''EXIT'', ''3'']" "[Prompt, InvalidInput]"]
          query_loop_behaviour[of "''EXIT''" stable_argsort example_matrix example_df
            "[''3'']" "[Prompt, InvalidInput, Prompt, InvalidInput]"]
          1 2 3
    by simp
qed

text \<open>
  C6, as stated: a query for a user whose every neighbour has an all-zero vector yields
  an empty recommendation list. It does not: the function has no threshold on the
  similarity, so a neighbour of similarity 0 is still selected, and the unseen movies
  are recommended with score 0. Here user 2, the only neighbour of user 1, rated nothing.
\<close>

theorem all_zero_neighbour_counterexample:
  "list_all (\<lambda>x. x = 0) (loc zero_neighbour_matrix 2)
   \<and> get_recommendations stable_argsort 1 zero_neighbour_matrix zero_neighbour_df =
       ([SimilarUsers 1 [(2, 0)], Header 1, Rec ''B'' ''Comedy'' 0], None)"
  by (simp add: zero_neighbour_get_recommendations)
     (simp add: zero_neighbour_matrix_def loc_def)

text \<open>
  C6, amended. For a target user present in the matrix, no similar user remains after
  the self-similarity entry is dropped exactly when the target is the only user of the
  matrix; exactly then the function prints the informational line and returns, with no
  exception and no recommendation. When there are other users, the function prints the
  similar users and the header, and the recommendation list of line 71 has as many
  entries as the target has unrated movies, up to 10; when the vector of every other
  user is all zero, every entry of that list has score 0. So a user whose neighbours
  are all zero gets an empty list only when no movie is left unrated.
\<close>

theorem empty_neighbourhood_is_reported:
  assumes "argsort_ok argsort" and "wf_matrix m" and "user_id \<in> set (index m)"
  shows "(similar_users argsort user_id m = [] \<longleftrightarrow> index m = [user_id])
       \<and> (get_recommendations argsort user_id m movies_df = ([NoSimilarUsers], None)
            \<longleftrightarrow> index m = [user_id])
       \<and> (index m \<noteq> [user_id] \<longrightarrow>
            take 2 (fst (get_recommendations argsort user_id m movies_df))
              = [SimilarUsers user_id (similar_users argsort user_id m), Header user_id])
       \<and> length (top_10_recommendations argsort user_id m)
            = min 10 (length (unseen_movies user_id m))
       \<and> (list_all (\<lambda>u. u = user_id \<or> list_all (\<lambda>x. x = 0) (loc m u)) (index m) \<longrightarrow>
            list_all (\<lambda>p. snd p = 0) (top_10_recommendations argsort user_id m))
       \<and> (top_10_recommendations argsort user_id m = [] \<longleftrightarrow> unseen_movies user_id m = [])"
proof -
  have 1: "similar_users argsort user_id m = [] \<longleftrightarrow> index m = [user_id]"
    by (rule no_similar_users_iff[OF assms])
  have "get_recommendations argsort user_id m movies_df = ([NoSimilarUsers], None)
        \<longleftrightarrow> similar_users argsort user_id m = []"
    using assms(3) by (auto simp: get_recommendations_def Let_def split: prod.splits)
  with 1 have 2: "get_recommendations argsort user_id m movies_df = ([NoSimilarUsers], None)
        \<longleftrightarrow> index m = [user_id]" by simp
  have 3: "take 2 (fst (get_recommendations argsort user_id m movies_df))
              = [SimilarUsers user_id (similar_users argsort user_id m), Header user_id]"
    if "index m \<noteq> [user_id]"
    using that 1 get_recommendations_prints_similar_users[OF assms(3)] by simp
  have 4: "length (top_10_recommendations argsort user_id m)
            = min 10 (length (unseen_movies user_id m))"
    by (rule length_top_10[OF assms(1)])
  have 5: "list_all (\<lambda>p. snd p = 0) (top_10_recommendations argsort user_id m)"
    if "list_all (\<lambda>u. u = user_id \<or> list_all (\<lambda>x. x = 0) (loc m u)) (index m)"
    using that by (rule zero_rows_zero_scores[OF assms])
  have "length (top_10_recommendations argsort user_id m) = 0
        \<longleftrightarrow> unseen_movies user_id m = []"
    by (simp only: 4) (cases "unseen_movies user_id m"; simp)
  then have 6: "top_10_recommendations argsort user_id m = [] \<longleftrightarrow> unseen_movies user_id m = []"
    by (simp only: length_0_conv)
  show ?thesis
  proof (intro conjI impI)
    show "top_10_recommendations argsort user_id m = [] \<longleftrightarrow> unseen_movies user_id m = []"
      by (rule 6)
    show "similar_users argsort user_id m = [] \<longleftrightarrow> index m = [user_id]" by (rule 1)
    show "get_recommendations argsort user_id m movies_df = ([NoSimilarUsers], None)
            \<longleftrightarrow> index m = [user_id]" by (rule 2)
    show "length (top_10_recommendations argsort user_id m)
            = min 10 (length (unseen_movies user_id m))" by (rule 4)
  next
    assume "index m \<noteq> [user_id]"
    then show "take 2 (fst (get_recommendations argsort user_id m movies_df))
              = [SimilarUsers user_id (similar_users argsort user_id m), Header user_id]"
      by (rule 3)
  next
    assume "list_all (\<lambda>u. u = user_id \<or> list_all (\<lambda>x. x = 0) (loc m u)) (index m)"
    then show "list_all (\<lambda>p. snd p = 0) (top_10_recommendations argsort user_id m)"
      by (rule 5)
  qed
qed

theorem empty_neighbourhood_is_reported_witness:
  "similar_users stable_argsort 7 single_user_matrix = []
   \<and> get_recommendations stable_argsort 7 single_user_matrix example_df = ([NoSimilarUsers], None)
   \<and> take 2 (fst (get_recommendations stable_argsort 1 zero_neighbour_matrix zero_neighbour_df))
       = [SimilarUsers 1 [(2, 0)], Header 1]
   \<and> top_10_recommendations stable_argsort 1 zero_neighbour_matrix = [(''B'', 0)]
   \<and> list_all (\<lambda>p. snd p = 0) (top_10_recommendations stable_argsort 1 zero_neighbour_matrix)
   \<and> top_10_recommendations stable_argsort 1 no_unseen_matrix = []"
proof -
  have w: "wf_matrix no_unseen_matrix" by (simp add: wf_matrix_def no_unseen_matrix_def)
  have o: "(1::int) \<in> set (index no_unseen_matrix)" by (simp add: no_unseen_matrix_def)
  have e: "unseen_movies 1 no_unseen_matrix = []"
    by (simp add: unseen_movies_def no_unseen_matrix_def loc_def)
  have r: "top_10_recommendations stable_argsort 1 no_unseen_matrix = []"
    using empty_neighbourhood_is_reported[OF stable_argsort_ok w o, of example_df] e
    by simp
  have u: "(7::int) \<in> set (index single_user_matrix)" by (simp add: single_user_matrix_def)
  have i: "index single_user_matrix = [7]" by (simp add: single_user_matrix_def)
  have z: "(1::int) \<in> set (index zero_neighbour_matrix)" by (simp add: zero_neighbour_matrix_def)
  have n: "index zero_neighbour_matrix \<noteq> [1]" by (simp add: zero_neighbour_matrix_def)
  have a: "list_all (\<lambda>u. u = 1 \<or> list_all (\<lambda>x. x = 0) (loc zero_neighbour_matrix u))
             (index zero_neighbour_matrix)"
    by (simp add: zero_neighbour_matrix_def loc_def)
  have s: "similar_users stable_argsort 7 single_user_matrix = []
     \<and> get_recommendations stable_argsort 7 single_user_matrix example_df = ([NoSimilarUsers], None)"
    using empty_neighbourhood_is_reported
            [OF stable_argsort_ok single_user_matrix_wf u, of example_df] i
    by simp
  have t: "take 2 (fst (get_recommendations stable_argsort 1 zero_neighbour_matrix zero_neighbour_df))
       = [SimilarUsers 1 (similar_users stable_argsort 1 zero_neighbour_matrix), Header 1]
     \<and> list_all (\<lambda>p. snd p = 0) (top_10_recommendations stable_argsort 1 zero_neighbour_matrix)"
    using empty_neighbourhood_is_reported
            [OF stable_argsort_ok zero_neighbour_matrix_wf z, of zero_neighbour_df] n a
    by simp
  show ?thesis
    using s t r by (simp add: zero_neighbour_similar_users zero_neighbour_top_10)
qed

text \<open>
  C7. In the similarity matrix that \<^verbatim>\<open>get_recommendations\<close> computes over the matrix,
  the entry of users \<open>u\<close> and \<open>v\<close> equals the entry of \<open>v\<close> and \<open>u\<close>; the entry of a
  user with itself is 1, and under the convention for zero-norm rows it is 0 when the
  user's row is all zero; every entry is the dot product over the product of the norms,
  and 0 when one of the norms is 0. Over the reals the equalities are exact.
\<close>

theorem similarity_symmetric_unit_diagonal:
  assumes "wf_matrix m" and "u \<in> set (index m)" and "v \<in> set (index m)"
  shows "cell (user_similarity_df m) u v = cell (user_similarity_df m) v u
       \<and> cell (user_similarity_df m) u u = (if list_all (\<lambda>x. x = 0) (loc m u) then 0 else 1)
       \<and> cell (user_similarity_df m) u v =
           (if row_norm (loc m u) = 0 \<or> row_norm (loc m v) = 0 then 0
            else dot (loc m u) (loc m v) / (row_norm (loc m u) * row_norm (loc m v)))"
proof -
  have "cell (user_similarity_df m) u v = cell (user_similarity_df m) v u"
    using cell_user_similarity_df[OF assms] cell_user_similarity_df[OF assms(1,3,2)]
      cosine_commute[of "loc m u" "loc m v"] by simp
  moreover have "cell (user_similarity_df m) u u = (if list_all (\<lambda>x. x = 0) (loc m u) then 0 else 1)"
    using cell_user_similarity_df[OF assms(1,2,2)] cosine_self[of "loc m u"] by simp
  moreover have "cell (user_similarity_df m) u v =
           (if row_norm (loc m u) = 0 \<or> row_norm (loc m v) = 0 then 0
            else dot (loc m u) (loc m v) / (row_norm (loc m u) * row_norm (loc m v)))"
    using cell_user_similarity_df[OF assms] by (simp add: cosine_def)
  ultimately show ?thesis by blast
qed

theorem similarity_symmetric_unit_diagonal_witness:
  "cell (user_similarity_df example_matrix) 1 2 = 3/5
   \<and> cell (user_similarity_df example_matrix) 2 1 = 3/5
   \<and> cell (user_similarity_df example_matrix) 1 1 = 1
   \<and> cell (user_similarity_df zero_neighbour_matrix) 2 2 = 0"
proof -
  have u1: "(1::int) \<in> set (index example_matrix)" and u2: "(2::int) \<in> set (index example_matrix)"
    by (simp_all add: example_matrix_def)
  have z2: "(2::int) \<in> set (index zero_neighbour_matrix)"
    by (simp add: zero_neighbour_matrix_def)
  have n1: "row_norm (loc example_matrix 1) = 5" and n2: "row_norm (loc example_matrix 2) = 5"
    by (simp_all add: example_matrix_def loc_def row_norm_def dot_def sqrt_25)
  have d: "dot (loc example_matrix 1) (loc example_matrix 2) = 15"
    by (simp add: example_matrix_def loc_def dot_def)
  have l1: "\<not> list_all (\<lambda>x. x = 0) (loc example_matrix 1)"
    by (simp add: example_matrix_def loc_def)
  have lz: "list_all (\<lambda>x. x = 0) (loc zero_neighbour_matrix 2)"
    by (simp add: zero_neighbour_matrix_def loc_def)
  show ?thesis
    using similarity_symmetric_unit_diagonal[OF example_matrix_wf u1 u2]
          similarity_symmetric_unit_diagonal[OF zero_neighbour_matrix_wf z2 z2]
          n1 n2 d l1 lz
    by simp
qed

text \<open>
  C8, as stated: the recommendations are the candidate movies sorted descending by mean
  score with ties in column order, cut to the top 10. Line 67 asks for no stable sort,
  and the tie order fails under numpy's quicksort as soon as there are enough candidates
  for the scores to be partitioned. In \<open>tied_scores_matrix\<close> fourteen candidates have
  score 5; in column order the first ten of them are the list below, and that is not
  the list that is recommended.
\<close>

theorem recommendations_tie_order_counterexample:
  "take 10 (spec_stable_desc (spec_candidates numpy_argsort 1 tied_scores_matrix)) =
     [(''M01'', 5), (''M03'', 5), (''M05'', 5), (''M06'', 5), (''M07'', 5), (''M10'', 5),
      (''M12'', 5), (''M14'', 5), (''M16'', 5), (''M17'', 5)]
   \<and> top_10_recommendations numpy_argsort 1 tied_scores_matrix
       \<noteq> take 10 (spec_stable_desc (spec_candidates numpy_argsort 1 tied_scores_matrix))"
  by (simp add: tied_scores_top_10 tied_scores_spec_top_10)

text \<open>
  C8, amended. For a target user present in the matrix, the scores of the
  recommendation list are non-increasing from the first entry to the last, in the list
  of line 71 and in the printed lines: the list is the first 10 entries of the candidate
  movies with their mean scores, put in non-increasing order of score. The order among
  equal scores is that of the sort used: with a stable sort it is the column order, as
  the specification words it.
\<close>

theorem recommendations_non_increasing:
  assumes "argsort_ok argsort" and "wf_matrix m" and "user_id \<in> set (index m)"
  shows "sorted_wrt (\<ge>) (map snd (top_10_recommendations argsort user_id m))
       \<and> sorted_wrt (\<ge>) (map snd (rec_lines (fst (get_recommendations argsort user_id m movies_df))))
       \<and> (\<exists>ranked. top_10_recommendations argsort user_id m = take 10 ranked
             \<and> mset ranked = mset (spec_candidates argsort user_id m)
             \<and> sorted_wrt (\<ge>) (map snd ranked))
       \<and> top_10_recommendations stable_argsort user_id m
           = take 10 (spec_stable_desc (spec_candidates stable_argsort user_id m))"
proof -
  let ?ranked = "recommendation_scores argsort user_id m"
  let ?top = "top_10_recommendations argsort user_id m"
  have top: "?top = take 10 ?ranked" by (simp add: top_10_recommendations_def head_def)
  have srt: "sorted_wrt (\<ge>) (map snd ?ranked)"
    by (rule recommendation_scores_ranked(2)[OF assms])
  have 1: "sorted_wrt (\<ge>) (map snd ?top)"
    unfolding top by (rule sorted_desc_take[OF srt])
  obtain k where k: "rec_lines (fst (get_recommendations argsort user_id m movies_df)) = take k ?top"
    using rec_lines_get_recommendations by blast
  have 2: "sorted_wrt (\<ge>) (map snd (rec_lines (fst (get_recommendations argsort user_id m movies_df))))"
    unfolding k by (rule sorted_desc_take[OF 1])
  have 3: "\<exists>ranked. ?top = take 10 ranked
             \<and> mset ranked = mset (spec_candidates argsort user_id m)
             \<and> sorted_wrt (\<ge>) (map snd ranked)"
    using top srt recommendation_scores_ranked(1)[OF assms] by blast
  have 4: "top_10_recommendations stable_argsort user_id m
           = take 10 (spec_stable_desc (spec_candidates stable_argsort user_id m))"
    by (simp add: top_10_recommendations_def head_def
        recommendation_scores_ranked(3)[OF stable_argsort_ok assms(2,3)] sort_values_stable)
  show ?thesis using 1 2 3 4 by blast
qed

theorem recommendations_non_increasing_witness:
  "rec_lines (fst (get_recommendations stable_argsort 1 example_matrix example_df))
     = [(''C'', 5/2), (''B'', 2)]
   \<and> sorted_wrt (\<ge>) (map snd (top_10_recommendations stable_argsort 1 example_matrix))
   \<and> take 10 (spec_stable_desc (spec_candidates stable_argsort 1 example_matrix))
       = [(''C'', 5/2), (''B'', 2)]"
proof -
  have u: "(1::int) \<in> set (index example_matrix)" by (simp add: example_matrix_def)
  have "top_10_recommendations stable_argsort 1 example_matrix
        = take 10 (spec_stable_desc (spec_candidates stable_argsort 1 example_matrix))"
    using recommendations_non_increasing[OF stable_argsort_ok example_matrix_wf u] by blast
  then have s: "take 10 (spec_stable_desc (spec_candidates stable_argsort 1 example_matrix))
       = [(''C'', 5/2), (''B'', 2)]"
    by (simp only: example_top_10)
  show ?thesis
    by (simp add: s example_get_recommendations example_top_10)
qed

text \<open>
  C9. \<^verbatim>\<open>get_recommendations\<close> is deterministic and changes neither of its inputs.
  Run on a store that holds the user-item matrix and the joined table, it prints what
  the function \<open>get_recommendations\<close> of the identifier and of the contents of these
  two objects gives, whatever else the store holds and wherever the two objects lie in
  it: the similar users and the recommendations, each in its order. The store it leaves
  is the store it found, followed by the objects it created: no object that existed
  before the call is changed, in particular not the matrix and not the joined table. So
  a second invocation, on the store the first one left, prints exactly the same, and so
  does an invocation on any other store that holds a matrix and a table with the same
  contents.
\<close>

theorem get_recommendations_deterministic_no_mutation:
  assumes "user_item_matrix_ref < length h" and "movies_df_ref < length h"
    and "h ! user_item_matrix_ref = DataFrameObj m" and "h ! movies_df_ref = TableObj df"
  shows "fst (get_recommendations_store argsort user_id user_item_matrix_ref movies_df_ref h)
           = get_recommendations argsort user_id m df
       \<and> take (length h)
            (snd (get_recommendations_store argsort user_id user_item_matrix_ref movies_df_ref h)) = h
       \<and> snd (get_recommendations_store argsort user_id user_item_matrix_ref movies_df_ref h)
            ! user_item_matrix_ref = DataFrameObj m
       \<and> snd (get_recommendations_store argsort user_id user_item_matrix_ref movies_df_ref h)
            ! movies_df_ref = TableObj df
       \<and> fst (get_recommendations_store argsort user_id user_item_matrix_ref movies_df_ref
              (snd (get_recommendations_store argsort user_id user_item_matrix_ref movies_df_ref h)))
           = fst (get_recommendations_store argsort user_id user_item_matrix_ref movies_df_ref h)
       \<and> (\<forall>h' user_item_matrix_ref' movies_df_ref'.
             user_item_matrix_ref' < length h' \<and> movies_df_ref' < length h'
             \<and> h' ! user_item_matrix_ref' = DataFrameObj m \<and> h' ! movies_df_ref' = TableObj df
             \<longrightarrow> fst (get_recommendations_store argsort user_id user_item_matrix_ref'
                        movies_df_ref' h')
                 = fst (get_recommendations_store argsort user_id user_item_matrix_ref
                        movies_df_ref h))"
proof -
  let ?run = "get_recommendations_store argsort user_id user_item_matrix_ref movies_df_ref"
  obtain created where run: "?run h = (get_recommendations argsort user_id m df, h @ created)"
    using get_recommendations_store_eq[OF assms] by blast
  have out: "fst (?run h) = get_recommendations argsort user_id m df"
    by (simp only: run fst_conv)
  have heap: "snd (?run h) = h @ created" by (simp only: run snd_conv)
  have frame: "take (length h) (snd (?run h)) = h" by (simp add: heap)
  have m': "snd (?run h) ! user_item_matrix_ref = DataFrameObj m"
    and df': "snd (?run h) ! movies_df_ref = TableObj df"
    using assms by (simp_all only: heap nth_append if_True)
  have lm: "user_item_matrix_ref < length (snd (?run h))"
    and ldf: "movies_df_ref < length (snd (?run h))"
    using assms(1,2) by (simp_all only: heap length_append trans_less_add1)
  obtain created' where
    "?run (snd (?run h)) = (get_recommendations argsort user_id m df, snd (?run h) @ created')"
    using get_recommendations_store_eq[OF lm ldf m' df'] by blast
  then have again: "fst (?run (snd (?run h))) = fst (?run h)"
    by (simp only: out fst_conv)
  have other: "fst (get_recommendations_store argsort user_id pm pdf h') = fst (?run h)"
    if p: "pm < length h'" "pdf < length h'" "h' ! pm = DataFrameObj m" "h' ! pdf = TableObj df"
    for h' pm pdf
  proof -
    obtain c where "get_recommendations_store argsort user_id pm pdf h'
                     = (get_recommendations argsort user_id m df, h' @ c)"
      using get_recommendations_store_eq[OF p] by blast
    then show ?thesis by (simp only: out fst_conv)
  qed
  show ?thesis
    apply (intro conjI allI impI)
         apply (rule out)
        apply (rule frame)
       apply (rule m')
      apply (rule df')
     apply (rule again)
    apply (elim conjE)
    apply (rule other; assumption)
    done
qed

theorem get_recommendations_deterministic_no_mutation_witness:
  "fst (get_recommendations_store stable_argsort 1 0 1
          [DataFrameObj example_matrix, TableObj example_df])
     = ([SimilarUsers 1 [(2, 3/5), (3, 0)], Header 1,
         Rec ''C'' ''Action'' (5/2), Rec ''B'' ''Comedy'' 2], None)
   \<and> take 2 (snd (get_recommendations_store stable_argsort 1 0 1
                 [DataFrameObj example_matrix, TableObj example_df]))
     = [DataFrameObj example_matrix, TableObj example_df]
   \<and> fst (get_recommendations_store stable_argsort 1 0 1
            (snd (get_recommendations_store stable_argsort 1 0 1
                    [DataFrameObj example_matrix, TableObj example_df])))
     = ([SimilarUsers 1 [(2, 3/5), (3, 0)], Header 1,
         Rec ''C'' ''Action'' (5/2), Rec ''B'' ''Comedy'' 2], None)
   \<and> fst (get_recommendations_store stable_argsort 1 1 0
            [TableObj example_df, DataFrameObj example_matrix])
     = ([SimilarUsers 1 [(2, 3/5), (3, 0)], Header 1,
         Rec ''C'' ''Action'' (5/2), Rec ''B'' ''Comedy'' 2], None)"
proof -
  let ?h = "[DataFrameObj example_matrix, TableObj example_df]"
  let ?h' = "[TableObj example_df, DataFrameObj example_matrix]"
  have a: "(0::nat) < length ?h" "(1::nat) < length ?h" "?h ! 0 = DataFrameObj example_matrix"
    "?h ! 1 = TableObj example_df"
    by simp_all
  have b: "(1::nat) < length ?h' \<and> (0::nat) < length ?h'
           \<and> ?h' ! 1 = DataFrameObj example_matrix \<and> ?h' ! 0 = TableObj example_df"
    by simp
  note t = get_recommendations_deterministic_no_mutation[OF a, of stable_argsort 1]
  have o: "fst (get_recommendations_store stable_argsort 1 0 1 ?h)
           = ([SimilarUsers 1 [(2, 3/5), (3, 0)], Header 1,
               Rec ''C'' ''Action'' (5/2), Rec ''B'' ''Comedy'' 2], None)"
    using t by (simp only: example_get_recommendations)
  have f: "take 2 (snd (get_recommendations_store stable_argsort 1 0 1 ?h)) = ?h"
    using t by (simp add: numeral_2_eq_2)
  have s: "fst (get_recommendations_store stable_argsort 1 0 1
             (snd (get_recommendations_store stable_argsort 1 0 1 ?h)))
           = fst (get_recommendations_store stable_argsort 1 0 1 ?h)"
    using t by (simp only:)
  have x: "fst (get_recommendations_store stable_argsort 1 1 0 ?h')
           = fst (get_recommendations_store stable_argsort 1 0 1 ?h)"
    using t b by blast
  show ?thesis
    by (intro conjI) (simp_all only: o f s x)
qed

text \<open>
  C10. When the matrix and the joined table come from one call of
  \<^verbatim>\<open>create_user_item_matrix\<close>, \<^verbatim>\<open>get_recommendations\<close> raises nothing, whatever
  identifier is queried: every title of the top 10 is a column of the matrix, every
  column is the title of some row of the joined table, and so the rows selected for a
  title are never empty when \<^verbatim>\<open>iloc[0]\<close> takes the first of them.
\<close>

theorem genre_lookup_defined:
  assumes "argsort_ok argsort" and "create_user_item_matrix ratings movies = (m, df)"
  shows "snd (get_recommendations argsort user_id m df) = None
       \<and> (user_id \<in> set (index m) \<longrightarrow>
            (\<forall>(t, score) \<in> set (top_10_recommendations argsort user_id m).
               filter (\<lambda>r. title r = t)
                 (filter (\<lambda>r. title r \<in> set (map fst (top_10_recommendations argsort user_id m))) df)
               \<noteq> []))"
proof -
  have m: "m = pivot_table df" by (rule create_user_item_matrix_pivot[OF assms(2)])
  have wf: "wf_matrix m" unfolding m by (rule pivot_table_wf)
  have cols: "set (columns m) = title ` set df" unfolding m by (rule columns_pivot_table)
  show ?thesis
  proof (intro conjI impI)
    show "snd (get_recommendations argsort user_id m df) = None"
    proof (cases "user_id \<in> set (index m)")
      case False
      then show ?thesis by (simp add: get_recommendations_def)
    next
      case True
      show ?thesis
        by (rule get_recommendations_no_error
              [OF True top_10_titles_have_rows[OF assms(1) wf True cols]])
    qed
  next
    assume u: "user_id \<in> set (index m)"
    show "\<forall>(t, score) \<in> set (top_10_recommendations argsort user_id m).
               filter (\<lambda>r. title r = t)
                 (filter (\<lambda>r. title r \<in> set (map fst (top_10_recommendations argsort user_id m))) df)
               \<noteq> []"
      by (rule matched_titles_nonempty[OF top_10_titles_have_rows[OF assms(1) wf u cols]])
  qed
qed

theorem genre_lookup_defined_witness:
  "create_user_item_matrix example_ratings example_movies = (example_matrix, example_df)
   \<and> get_recommendations stable_argsort 1 example_matrix example_df =
     ([SimilarUsers 1 [(2, 3/5), (3, 0)], Header 1,
       Rec ''C'' ''Action'' (5/2), Rec ''B'' ''Comedy'' 2], None)
   \<and> snd (get_recommendations stable_argsort 1 example_matrix example_df) = None"
proof -
  have "snd (get_recommendations stable_argsort 1 example_matrix example_df) = None"
    using genre_lookup_defined[OF stable_argsort_ok example_create_user_item_matrix,
            where user_id = 1]
    by (rule conjunct1)
  then show ?thesis
    by (simp only: example_create_user_item_matrix example_get_recommendations simp_thms)
qed

end
